theory Spec2Isabelle
  imports Main "HOL-Library.AList" "HOL-Library.Sublist"
begin

section \<open>The conformance-test driver \<^verbatim>\<open>tests_config/run_spec.js\<close>\<close>

text \<open>
  The driver resolves the Python interpreters of the host, lists the fixture files of a
  directory, formats each fixture once per interpreter and registers Jest test units:
  a snapshot test, one verification test per alternate parser and, when the environment
  variable \<^verbatim>\<open>AST_COMPARE\<close> is set, a round-trip test on the syntax tree.

  JavaScript strings are modelled as HOL strings, one \<^typ>\<open>char\<close> per code unit.
  Registering a test and running its body are two phases, as in Jest: \<^verbatim>\<open>test(name, fn)\<close>
  only records the closure, and the bodies run after the spec file has been loaded.
\<close>

subsection \<open>JavaScript values\<close>

text \<open>
  The JSON-like values the driver handles: syntax trees, option values, and the values
  handed to \<^verbatim>\<open>expect\<close>. An object is an association list in property order.
  Numbers are carried around and never computed with, apart from \<^verbatim>\<open>length\<close>.
\<close>

datatype jsval =
    Undefined
  | Null
  | Bool bool
  | Num int
  | Str string
  | Arr "jsval list"
  | Obj "(string \<times> jsval) list"

type_synonym obj = "(string \<times> jsval) list"

text \<open>\<^verbatim>\<open>Object.assign(target, source)\<close>: every property of the source, in order, is
  written to the target; an existing key keeps its place, a new key goes last.\<close>

definition assign :: "obj \<Rightarrow> obj \<Rightarrow> obj" where
  "assign target source = fold (\<lambda>(key, v). AList.update key v) source target"

text \<open>What a \<^verbatim>\<open>throw\<close> carries: \<^verbatim>\<open>new Error(message)\<close> raised by the driver itself,
  a \<^verbatim>\<open>TypeError\<close> of the runtime, or an exception of a collaborator (file system,
  formatter), known by its \<^verbatim>\<open>stack\<close> diagnostic.\<close>

datatype js_error = Error string | TypeError | Thrown string

text \<open>The truthiness test of \<^verbatim>\<open>!x\<close> and \<^verbatim>\<open>if (x)\<close>.\<close>

fun truthy :: "jsval \<Rightarrow> bool" where
  "truthy Undefined = False"
| "truthy Null = False"
| "truthy (Bool b) = b"
| "truthy (Num n) = (n \<noteq> 0)"
| "truthy (Str s) = (s \<noteq> [])"
| "truthy (Arr es) = True"
| "truthy (Obj kvs) = True"

text \<open>\<^verbatim>\<open>ast.errors\<close>: reading a property of \<^verbatim>\<open>undefined\<close> or \<^verbatim>\<open>null\<close> throws; an object
  answers with the property or \<^verbatim>\<open>undefined\<close>; arrays and primitives have no such
  property.\<close>

fun member_errors :: "jsval \<Rightarrow> js_error + jsval" where
  "member_errors Undefined = Inl TypeError"
| "member_errors Null = Inl TypeError"
| "member_errors (Obj kvs) =
     (case map_of kvs ''errors'' of None \<Rightarrow> Inr Undefined | Some v \<Rightarrow> Inr v)"
| "member_errors v = Inr Undefined"

text \<open>\<^verbatim>\<open>x.length\<close> for a truthy \<^verbatim>\<open>x\<close>.\<close>

fun member_length :: "jsval \<Rightarrow> jsval" where
  "member_length (Arr es) = Num (int (length es))"
| "member_length (Str s) = Num (int (length s))"
| "member_length (Obj kvs) =
     (case map_of kvs ''length'' of None \<Rightarrow> Undefined | Some v \<Rightarrow> v)"
| "member_length v = Undefined"

subsection \<open>The collaborators\<close>

text \<open>The result of \<^verbatim>\<open>child_process.spawnSync\<close>: the exit status (\<^verbatim>\<open>null\<close> when the
  executable could not be spawned or was killed) and the standard output.\<close>

record proc =
  status :: "int option"
  stdout :: string

text \<open>
  Everything the driver calls and does not define: the process spawner, the \<^verbatim>\<open>semver\<close>
  range test, \<^verbatim>\<open>path.extname\<close>, the file system, the formatter with its debug parser,
  option normalizer and tree cleaner, and the environment variable. A collaborator that
  can throw returns \<open>Inl stack\<close>.

  The range test \<^verbatim>\<open>semver.satisfies(version, range)\<close> of semver 5 parses the version
  string and throws a \<^verbatim>\<open>TypeError\<close> when it is not a semantic version (3.8.0rc1); the driver calls it without a \<^verbatim>\<open>try\<close>. \<open>invalid_version\<close> gives the stack
  of that exception for a version string the library does not parse, and \<open>satisfies\<close>
  the answer for one it parses. The ranges of line 23 are the literals \<^verbatim>\<open>2.*\<close> and
  \<^verbatim>\<open>3.*\<close>, and line 40 is reached only with versions that line 23 accepted.
\<close>

record env =
  spawnSync :: "string \<Rightarrow> string list \<Rightarrow> proc"
  invalid_version :: "string \<Rightarrow> string option"
  satisfies :: "string \<Rightarrow> string \<Rightarrow> bool"
  extname :: "string \<Rightarrow> string"
  readdirSync :: "string \<Rightarrow> string + string list"
  lstatSync_isFile :: "string \<Rightarrow> string + bool"
  readFileSync :: "string \<Rightarrow> string + string"
  prettier_format :: "string \<Rightarrow> obj \<Rightarrow> string + string"
  prettier_debug_parse :: "string \<Rightarrow> obj \<Rightarrow> string + jsval"
  normalizeOptions :: "obj \<Rightarrow> string + obj"
  massageAST :: "jsval \<Rightarrow> obj \<Rightarrow> string + jsval"
  AST_COMPARE :: "string option"

subsection \<open>Interpreter resolution\<close>

definition CR :: char where "CR = CHR 0x0D"
definition LF :: char where "LF = CHR 0x0A"

text \<open>\<^verbatim>\<open>String.prototype.trim\<close> on code units below 256: the white space and line
  terminators are TAB, LF, VT, FF, CR, SPACE and NBSP.\<close>

definition is_js_space :: "char \<Rightarrow> bool" where
  "is_js_space c \<longleftrightarrow>
     c \<in> {CHR 0x09, CHR 0x0A, CHR 0x0B, CHR 0x0C, CHR 0x0D, CHR 0x20, CHR 0xA0}"

definition trim :: "string \<Rightarrow> string" where
  "trim s = rev (dropWhile is_js_space (rev (dropWhile is_js_space s)))"

definition probe_args :: "string list" where
  "probe_args = [''-c'', ''import platform; print(platform.python_version())'']"

text \<open>The call \<^verbatim>\<open>semver.satisfies(version, range)\<close>.\<close>

definition semver_satisfies :: "env \<Rightarrow> string \<Rightarrow> string \<Rightarrow> string + bool" where
  "semver_satisfies E version rng =
     (case invalid_version E version of
        Some stack \<Rightarrow> Inl stack
      | None \<Rightarrow> Inr (satisfies E version rng))"

text \<open>The loop of \<^verbatim>\<open>getPythonBinAndVersion\<close>: \<^verbatim>\<open>continue\<close> on a status other than
  zero; the test \<^verbatim>\<open>version !== null\<close> is always true of a trimmed string; an exception
  of the range test leaves the loop and the function.\<close>

fun getPythonBinAndVersion ::
  "env \<Rightarrow> string list \<Rightarrow> string \<Rightarrow> js_error + (string \<times> string) option" where
  "getPythonBinAndVersion E [] versionSpec = Inr None"
| "getPythonBinAndVersion E (bin # potentialBins) versionSpec =
     (let proc = spawnSync E bin probe_args in
      if status proc \<noteq> Some 0 then getPythonBinAndVersion E potentialBins versionSpec
      else
        let version = trim (stdout proc) in
        case semver_satisfies E version versionSpec of
          Inl s \<Rightarrow> Inl (Thrown s)
        | Inr ok \<Rightarrow>
            if ok then Inr (Some (bin, version))
            else getPythonBinAndVersion E potentialBins versionSpec)"

text \<open>The constants of the module, lines 31 and 32. They are computed when the module
  is loaded; when a resolution throws, the module does not load and none of its
  functions exists.\<close>

record resolved =
  python2BinAndVersion :: "(string \<times> string) option"
  python3BinAndVersion :: "(string \<times> string) option"

definition load_module :: "env \<Rightarrow> js_error + resolved" where
  "load_module E =
     (case getPythonBinAndVersion E [''python2.7'', ''python2'', ''python''] ''2.*'' of
        Inl e \<Rightarrow> Inl e
      | Inr binding2 \<Rightarrow>
          (case getPythonBinAndVersion E [''python3.6'', ''python3'', ''python''] ''3.*'' of
             Inl e \<Rightarrow> Inl e
           | Inr binding3 \<Rightarrow>
               Inr \<lparr>python2BinAndVersion = binding2, python3BinAndVersion = binding3\<rparr>))"

subsection \<open>Tests, their bodies and the store\<close>

text \<open>A call \<^verbatim>\<open>expect(received).matcher(expected)\<close>. The snapshot matcher receives the
  marker object built by \<^verbatim>\<open>raw\<close>.\<close>

datatype raw_marker = Raw string

datatype assertion =
    ToBeGreaterThan jsval jsval
  | ToEqual jsval jsval
  | ToBe jsval jsval
  | ToBeDefined jsval
  | ToMatchSnapshot raw_marker string

text \<open>
  The closures handed to \<^verbatim>\<open>test\<close>, each with the variables it captures. The merged
  option object is captured by reference: the closure holds its address in the store.
\<close>

datatype test_body =
    AtLeastOneBody "string list"
  | BothVersionsBody "string list"
  | SnapshotBody string string string
  | VerifyBody nat string string string string
  | ParseBody jsval jsval jsval jsval

datatype fs_event = Readdir string | Lstat string | ReadFile string

text \<open>The state the driver acts on: the tests registered so far, the store of merged
  option objects (an address is an index) and the file-system calls made so far.\<close>

record state =
  tests :: "(string \<times> test_body) list"
  heap :: "obj list"
  fs_log :: "fs_event list"

definition test :: "string \<Rightarrow> test_body \<Rightarrow> state \<Rightarrow> state" where
  "test name body st = st\<lparr>tests := tests st @ [(name, body)]\<rparr>"

subsection \<open>The interpreter set\<close>

text \<open>Lines 36 to 44: the loop over the two constants that pushes the executables whose
  version satisfies the range.\<close>

fun select_binaries ::
  "env \<Rightarrow> string \<Rightarrow> (string \<times> string) option list \<Rightarrow> string list \<Rightarrow> js_error + string list" where
  "select_binaries E versionSpec [] pythonBinaries = Inr pythonBinaries"
| "select_binaries E versionSpec (binAndVersion # rest) pythonBinaries =
     (case binAndVersion of
        None \<Rightarrow> select_binaries E versionSpec rest pythonBinaries
      | Some (bin, version) \<Rightarrow>
          (case semver_satisfies E version versionSpec of
             Inl s \<Rightarrow> Inl (Thrown s)
           | Inr ok \<Rightarrow>
               select_binaries E versionSpec rest
                 (if ok then pythonBinaries @ [bin] else pythonBinaries)))"

text \<open>\<^verbatim>\<open>getPythonBinaries(versionSpec)\<close> in a module whose constants are \<open>M\<close>.\<close>

definition getPythonBinaries ::
  "env \<Rightarrow> resolved \<Rightarrow> string \<Rightarrow> state \<Rightarrow> (js_error + string list) \<times> state" where
  "getPythonBinaries E M versionSpec st =
     (case select_binaries E versionSpec [python2BinAndVersion M, python3BinAndVersion M] [] of
        Inl e \<Rightarrow> (Inl e, st)
      | Inr pythonBinaries \<Rightarrow>
          let st1 = test ''At least one valid Python version'' (AtLeastOneBody pythonBinaries) st;
              st2 = (if versionSpec = ''*''
                     then test ''Both Python versions available''
                            (BothVersionsBody pythonBinaries) st1
                     else st1)
          in (Inr pythonBinaries, st2))"

subsection \<open>Helpers of the driver\<close>

fun stripExtraNonComparableKeys :: "jsval \<Rightarrow> jsval" where
  "stripExtraNonComparableKeys (Arr es) = Arr (map stripExtraNonComparableKeys es)"
| "stripExtraNonComparableKeys (Obj kvs) =
     Obj (map (\<lambda>(key, v). (key, stripExtraNonComparableKeys v))
            (filter (\<lambda>(key, v). key \<noteq> ''text'') kvs))"
| "stripExtraNonComparableKeys Null = Obj []"
| "stripExtraNonComparableKeys ast = ast"

definition parse :: "env \<Rightarrow> string \<Rightarrow> obj \<Rightarrow> string + jsval" where
  "parse E string opts =
     (case prettier_debug_parse E string opts of
        Inl s \<Rightarrow> Inl s
      | Inr ast \<Rightarrow> Inr (stripExtraNonComparableKeys ast))"

definition prettyprint :: "env \<Rightarrow> string \<Rightarrow> string \<Rightarrow> obj \<Rightarrow> string + string" where
  "prettyprint E src filename options =
     prettier_format E src (assign [(''filepath'', Str filename)] options)"

definition read :: "env \<Rightarrow> string \<Rightarrow> string + string" where
  "read E filename = readFileSync E filename"

definition raw :: "string \<Rightarrow> raw_marker" where
  "raw string = Raw string"

text \<open>\<^verbatim>\<open>.replace(/\r\n/g, "\n")\<close>: one pass from the left, every match replaced.\<close>

fun replace_crlf :: "string \<Rightarrow> string" where
  "replace_crlf (c # d # rest) =
     (if c = CR \<and> d = LF then LF # replace_crlf rest else c # replace_crlf (d # rest))"
| "replace_crlf [c] = [c]"
| "replace_crlf [] = []"

subsection \<open>Running a test body\<close>

text \<open>
  A body yields the \<^verbatim>\<open>expect\<close> calls it makes, in program order, and the exception
  its own code throws, if any; it may write to the store. A failing matcher throws as
  well, so Jest reports the test as passed exactly when every listed call holds and no
  exception is left. An address always denotes a live object; the guard on the address
  only makes the function total.
\<close>

type_synonym outcome = "assertion list \<times> js_error option"

fun run_body :: "env \<Rightarrow> test_body \<Rightarrow> obj list \<Rightarrow> outcome \<times> obj list" where
  "run_body E (AtLeastOneBody pythonBinaries) h =
     (([ToBeGreaterThan (Num (int (length pythonBinaries))) (Num 0)], None), h)"
| "run_body E (BothVersionsBody pythonBinaries) h =
     (([ToEqual (Num (int (length pythonBinaries))) (Num 2)], None), h)"
| "run_body E (SnapshotBody source output filename) h =
     (([ToMatchSnapshot (raw (source @ replicate 80 (CHR ''~'') @ [LF] @ output)) filename],
       None), h)"
| "run_body E (VerifyBody mergedOptions parserName source path output) h =
     (if mergedOptions < length h then
        let verifyOptions = assign (h ! mergedOptions) [(''parser'', Str parserName)];
            h' = h[mergedOptions := verifyOptions]
        in case prettyprint E source path verifyOptions of
             Inl s \<Rightarrow> (([], Some (Thrown s)), h')
           | Inr verifyOutput \<Rightarrow> (([ToEqual (Str output) (Str verifyOutput)], None), h')
      else (([], Some TypeError), h))"
| "run_body E (ParseBody pperr ppastMassaged ast astMassaged) h =
     (let checks = [ToBe pperr Null, ToBeDefined ppastMassaged] in
      case member_errors ast of
        Inl e \<Rightarrow> ((checks, Some e), h)
      | Inr errors \<Rightarrow>
          if \<not> truthy errors \<or> member_length errors = Num 0
          then ((checks @ [ToEqual astMassaged ppastMassaged], None), h)
          else ((checks, None), h))"

text \<open>Running bodies one after the other on the same store.\<close>

fun run_bodies :: "env \<Rightarrow> test_body list \<Rightarrow> obj list \<Rightarrow> outcome list \<times> obj list" where
  "run_bodies E [] h = ([], h)"
| "run_bodies E (b # bs) h =
     (case run_body E b h of
        (r, h') \<Rightarrow> (case run_bodies E bs h' of (rs, h'') \<Rightarrow> (r # rs, h'')))"

subsection \<open>The driver\<close>

text \<open>\<^verbatim>\<open>xs.forEach(f)\<close> for a callback that may throw: the first exception ends the loop.\<close>

fun forEach :: "('a \<Rightarrow> state \<Rightarrow> (js_error + unit) \<times> state) \<Rightarrow> 'a list \<Rightarrow> state
    \<Rightarrow> (js_error + unit) \<times> state" where
  "forEach f [] st = (Inr (), st)"
| "forEach f (x # xs) st =
     (case f x st of
        (Inl e, st') \<Rightarrow> (Inl e, st')
      | (Inr u, st') \<Rightarrow> forEach f xs st')"

definition env_set :: "string option \<Rightarrow> bool" where
  "env_set v = (case v of None \<Rightarrow> False | Some s \<Rightarrow> s \<noteq> [])"

text \<open>The second half of the \<^verbatim>\<open>try\<close> block of the round-trip check: format, parse the
  output, clean the tree.\<close>

definition reparse :: "env \<Rightarrow> string \<Rightarrow> string \<Rightarrow> obj \<Rightarrow> obj \<Rightarrow> string + jsval" where
  "reparse E source path mergedOptions normalizedOptions =
     (case prettyprint E source path mergedOptions of
        Inl s \<Rightarrow> Inl s
      | Inr formatted \<Rightarrow>
          (case parse E formatted mergedOptions of
             Inl s \<Rightarrow> Inl s
           | Inr ppast \<Rightarrow> massageAST E ppast normalizedOptions))"

text \<open>The merged options of lines 82 to 85:
  \<^verbatim>\<open>Object.assign({}, options, {parser: parsers[0], pythonBin: pythonBin})\<close>.\<close>

definition mergedOptions_of :: "obj \<Rightarrow> string \<Rightarrow> string \<Rightarrow> obj" where
  "mergedOptions_of options parser0 pythonBin =
     assign (assign [] options) [(''parser'', Str parser0), (''pythonBin'', Str pythonBin)]"

text \<open>The callback of the loop over the interpreters (lines 81 to 127). The merged
  options are a new object of the store. Between its creation and the end of the
  callback nothing writes to the store, so the calls made here read the object as
  created.\<close>

definition per_pythonBin ::
  "env \<Rightarrow> string \<Rightarrow> string \<Rightarrow> string \<Rightarrow> string \<Rightarrow> string list \<Rightarrow> obj \<Rightarrow> string \<Rightarrow> state
    \<Rightarrow> (js_error + unit) \<times> state" where
  "per_pythonBin E filename path source parser0 others options pythonBin st =
     (let mergedOptions = mergedOptions_of options parser0 pythonBin;
          a = length (heap st);
          st1 = st\<lparr>heap := heap st @ [mergedOptions]\<rparr>
      in case prettyprint E source path mergedOptions of
           Inl s \<Rightarrow> (Inl (Thrown s), st1)
         | Inr output \<Rightarrow>
             let st2 = test (filename @ '' - '' @ parser0 @ ''-verify'')
                         (SnapshotBody source output filename) st1;
                 st3 = fold (\<lambda>parserName.
                               test (filename @ '' - '' @ parserName @ ''-verify'')
                                 (VerifyBody a parserName source path output))
                            others st2
             in if env_set (AST_COMPARE E) then
                  (case parse E source mergedOptions of
                     Inl s \<Rightarrow> (Inl (Thrown s), st3)
                   | Inr ast \<Rightarrow>
                       (case normalizeOptions E mergedOptions of
                          Inl s \<Rightarrow> (Inl (Thrown s), st3)
                        | Inr normalizedOptions \<Rightarrow>
                            (case massageAST E ast normalizedOptions of
                               Inl s \<Rightarrow> (Inl (Thrown s), st3)
                             | Inr astMassaged \<Rightarrow>
                                 (case reparse E source path mergedOptions normalizedOptions of
                                    Inl stack \<Rightarrow>
                                      (Inr (), test (path @ '' parse'')
                                         (ParseBody (Str stack) Undefined ast astMassaged) st3)
                                  | Inr ppastMassaged \<Rightarrow>
                                      (Inr (), test (path @ '' parse'')
                                         (ParseBody Null ppastMassaged ast astMassaged) st3)))))
                else (Inr (), st3))"

text \<open>The callback of the loop over the directory entries (lines 71 to 129).\<close>

definition per_filename ::
  "env \<Rightarrow> resolved \<Rightarrow> string \<Rightarrow> string \<Rightarrow> string list \<Rightarrow> string \<Rightarrow> obj \<Rightarrow> string \<Rightarrow> state
    \<Rightarrow> (js_error + unit) \<times> state" where
  "per_filename E M dirname parser0 others versionRange options filename st =
     (let path = dirname @ ''/'' @ filename in
      if extname E filename \<noteq> ''.snap'' then
        let st1 = st\<lparr>fs_log := fs_log st @ [Lstat path]\<rparr> in
        case lstatSync_isFile E path of
          Inl s \<Rightarrow> (Inl (Thrown s), st1)
        | Inr isFile \<Rightarrow>
            if isFile \<and> take 1 filename \<noteq> ''.'' \<and> filename \<noteq> ''jsfmt.spec.js'' then
              let st2 = st1\<lparr>fs_log := fs_log st1 @ [ReadFile path]\<rparr> in
              case read E path of
                Inl s \<Rightarrow> (Inl (Thrown s), st2)
              | Inr content \<Rightarrow>
                  let source = replace_crlf content in
                  (case getPythonBinaries E M versionRange st2 of
                     (Inl e, st3) \<Rightarrow> (Inl e, st3)
                   | (Inr pythonBinaries, st3) \<Rightarrow>
                       forEach (per_pythonBin E filename path source parser0 others options)
                         pythonBinaries st3)
            else (Inr (), st1)
      else (Inr (), st))"

text \<open>Lines 59 to 64: \<^verbatim>\<open>Object.assign({plugins: ["."]}, options)\<close>, where an absent
  source is skipped.\<close>

definition with_defaults :: "obj option \<Rightarrow> obj" where
  "with_defaults options =
     assign [(''plugins'', Arr [Str ''.''])] (case options of None \<Rightarrow> [] | Some opts \<Rightarrow> opts)"

text \<open>\<^verbatim>\<open>run_spec(dirname, parsers, versionRange, options)\<close> in a module whose constants
  are \<open>M\<close>; an absent argument is \<open>None\<close>.\<close>

definition run_spec ::
  "env \<Rightarrow> resolved \<Rightarrow> string \<Rightarrow> string list option \<Rightarrow> string \<Rightarrow> obj option \<Rightarrow> state
    \<Rightarrow> (js_error + unit) \<times> state" where
  "run_spec E M dirname parsers versionRange options st =
     (let options' = with_defaults options
      in case parsers of
           None \<Rightarrow> (Inl (Error (''No parsers were specified for '' @ dirname)), st)
         | Some ps \<Rightarrow>
             (case ps of
                Nil \<Rightarrow> (Inl (Error (''No parsers were specified for '' @ dirname)), st)
              | parser0 # others \<Rightarrow>
                  let st1 = st\<lparr>fs_log := fs_log st @ [Readdir dirname]\<rparr> in
                  (case readdirSync E dirname of
                     Inl s \<Rightarrow> (Inl (Thrown s), st1)
                   | Inr filenames \<Rightarrow>
                       forEach (per_filename E M dirname parser0 others versionRange options')
                         filenames st1)))"

subsection \<open>Notions of the specification\<close>

text \<open>The version a candidate reports: its trimmed standard output.\<close>

definition reported :: "env \<Rightarrow> string \<Rightarrow> string" where
  "reported E candidate = trim (stdout (spawnSync E candidate probe_args))"




text \<open>A text contains the sequence CR LF, respectively CR CR LF.\<close>

fun has_crlf :: "string \<Rightarrow> bool" where
  "has_crlf (c # d # rest) = (c = CR \<and> d = LF \<or> has_crlf (d # rest))"
| "has_crlf [c] = False"
| "has_crlf [] = False"

fun has_crcrlf :: "string \<Rightarrow> bool" where
  "has_crcrlf (c # d # e # rest) =
     (c = CR \<and> d = CR \<and> e = LF \<or> has_crcrlf (d # e # rest))"
| "has_crcrlf [c, d] = False"
| "has_crcrlf [c] = False"
| "has_crcrlf [] = False"

text \<open>Some object of a tree has a field named \<^verbatim>\<open>text\<close>.\<close>

fun has_text_key :: "jsval \<Rightarrow> bool" where
  "has_text_key (Arr es) = (\<exists>e \<in> set es. has_text_key e)"
| "has_text_key (Obj kvs) = (\<exists>(key, v) \<in> set kvs. key = ''text'' \<or> has_text_key v)"
| "has_text_key v = False"

text \<open>An entry of a directory is a fixture when its extension is not the snapshot
  extension, it is a regular file, its name does not start with a dot and it is not the
  spec-definition file.\<close>

definition is_fixture :: "env \<Rightarrow> string \<Rightarrow> string \<Rightarrow> bool" where
  "is_fixture E directory entry \<longleftrightarrow>
     extname E entry \<noteq> ''.snap'' \<and>
     lstatSync_isFile E (directory @ ''/'' @ entry) = Inr True \<and>
     \<not> prefix ''.'' entry \<and>
     entry \<noteq> ''jsfmt.spec.js''"

text \<open>The files read and the directories listed, in the order of the calls.\<close>

fun files_read :: "fs_event list \<Rightarrow> string list" where
  "files_read [] = []"
| "files_read (ReadFile p # evs) = p # files_read evs"
| "files_read (ev # evs) = files_read evs"

fun dirs_listed :: "fs_event list \<Rightarrow> string list" where
  "dirs_listed [] = []"
| "dirs_listed (Readdir d # evs) = d # dirs_listed evs"
| "dirs_listed (ev # evs) = dirs_listed evs"

text \<open>The file-system calls the driver makes for one entry of the directory.\<close>

definition file_events :: "env \<Rightarrow> string \<Rightarrow> string \<Rightarrow> fs_event list" where
  "file_events E directory entry =
     (if extname E entry \<noteq> ''.snap''
      then Lstat (directory @ ''/'' @ entry) #
           (if is_fixture E directory entry then [ReadFile (directory @ ''/'' @ entry)] else [])
      else [])"

text \<open>The two version tracks exclude each other: no version is in both \<^verbatim>\<open>2.*\<close> and
  \<^verbatim>\<open>3.*\<close>, as the ranges of semantic versioning are.\<close>

definition tracks_disjoint :: "env \<Rightarrow> bool" where
  "tracks_disjoint E \<longleftrightarrow>
     (\<forall>version. \<not> (satisfies E version ''2.*'' \<and> satisfies E version ''3.*''))"

text \<open>The bindings of the tracks that resolved, first track first, and the interpreter
  set as the specification words it: the executables of the bindings whose version
  satisfies the range, duplicates removed.\<close>

definition resolved_tracks :: "resolved \<Rightarrow> (string \<times> string) list" where
  "resolved_tracks M =
     concat (map (\<lambda>track. case track of None \<Rightarrow> [] | Some binding \<Rightarrow> [binding])
       [python2BinAndVersion M, python3BinAndVersion M])"

definition buildSet :: "env \<Rightarrow> resolved \<Rightarrow> string \<Rightarrow> string list" where
  "buildSet E M versionRange =
     remdups (map fst (filter (\<lambda>(bin, version). satisfies E version versionRange)
       (resolved_tracks M)))"

text \<open>A state extends another when the tests, the store and the log have only grown at
  the end.\<close>

definition extends :: "state \<Rightarrow> state \<Rightarrow> bool" where
  "extends s s' \<longleftrightarrow>
     prefix (tests s) (tests s') \<and> prefix (heap s) (heap s') \<and> prefix (fs_log s) (fs_log s')"

text \<open>An option object is a parser variant of another when they are equal or differ by
  one write to the field \<^verbatim>\<open>parser\<close>; a store is a variant of another when it holds a
  parser variant at every address.\<close>

definition parser_variant :: "obj \<Rightarrow> obj \<Rightarrow> bool" where
  "parser_variant opts opts' \<longleftrightarrow>
     opts' = opts \<or> (\<exists>v. opts' = AList.update ''parser'' v opts)"

definition store_variant :: "obj list \<Rightarrow> obj list \<Rightarrow> bool" where
  "store_variant h h' \<longleftrightarrow>
     length h' = length h \<and> (\<forall>a < length h. parser_variant (h ! a) (h' ! a))"

subsection \<open>A small host\<close>

text \<open>
  A host to run the driver on: \<^verbatim>\<open>python2\<close> reports 2.7.18, \<^verbatim>\<open>python3\<close> and
  \<^verbatim>\<open>python\<close> report 3.6.9, nothing else can be spawned; the library parses every
  version string but 3.8.0rc1. The directory \<^verbatim>\<open>t\<close> holds a fixture, a hidden file, a
  snapshot, a subdirectory and the spec file; the directory \<^verbatim>\<open>u\<close> two fixtures with a
  hidden file and a snapshot between them; the directory \<^verbatim>\<open>n\<close> one fixture, whose
  parse carries \<^verbatim>\<open>errors: null\<close>. The formatter returns its input.
\<close>

definition demo_spawnSync :: "string \<Rightarrow> string list \<Rightarrow> proc" where
  "demo_spawnSync bin args =
     (if args \<noteq> probe_args then \<lparr>status = Some 2, stdout = []\<rparr>
      else if bin = ''python2'' then \<lparr>status = Some 0, stdout = ''2.7.18'' @ [LF]\<rparr>
      else if bin = ''python3'' then \<lparr>status = Some 0, stdout = ''3.6.9'' @ [LF]\<rparr>
      else if bin = ''python'' then \<lparr>status = Some 0, stdout = ''3.6.9'' @ [LF]\<rparr>
      else \<lparr>status = None, stdout = []\<rparr>)"

definition demo_invalid_version :: "string \<Rightarrow> string option" where
  "demo_invalid_version version =
     (if version = ''3.8.0rc1'' then Some ''TypeError: Invalid Version: 3.8.0rc1'' else None)"

definition demo_satisfies :: "string \<Rightarrow> string \<Rightarrow> bool" where
  "demo_satisfies version rng \<longleftrightarrow>
     rng = ''*'' \<or> (rng = ''2.*'' \<and> take 2 version = ''2.'')
       \<or> (rng = ''3.*'' \<and> take 2 version = ''3.'')"

definition demo_extname :: "string \<Rightarrow> string" where
  "demo_extname f =
     (if CHR ''.'' \<in> set (drop 1 f)
      then CHR ''.'' # rev (takeWhile (\<lambda>c. c \<noteq> CHR ''.'') (rev f)) else [])"

definition demo_readdirSync :: "string \<Rightarrow> string + string list" where
  "demo_readdirSync d =
     (if d = ''t'' then Inr [''a.py'', ''.hidden'', ''r.snap'', ''sub'', ''jsfmt.spec.js'']
      else if d = ''u'' then Inr [''a.txt'', ''.hidden'', ''results.snap'', ''b.txt'']
      else if d = ''n'' then Inr [''c.py'']
      else Inl ''ENOENT'')"

definition demo_readFileSync :: "string \<Rightarrow> string + string" where
  "demo_readFileSync p = (if p = ''n/c.py'' then Inr ''n'' else Inr (''x'' @ [CR, LF]))"

definition demo_parse :: "string \<Rightarrow> obj \<Rightarrow> string + jsval" where
  "demo_parse src opts =
     (if src = ''n'' then Inr (Obj [(''type'', Str ''Module''), (''errors'', Null)])
      else Inr (Obj [(''type'', Str ''Module''), (''text'', Str src)]))"

definition demo_env :: env where
  "demo_env = \<lparr>
     spawnSync = demo_spawnSync,
     invalid_version = demo_invalid_version,
     satisfies = demo_satisfies,
     extname = demo_extname,
     readdirSync = demo_readdirSync,
     lstatSync_isFile = (\<lambda>p. Inr (p \<noteq> ''t/sub'')),
     readFileSync = demo_readFileSync,
     prettier_format = (\<lambda>src opts. Inr src),
     prettier_debug_parse = demo_parse,
     normalizeOptions = (\<lambda>opts. Inr opts),
     massageAST = (\<lambda>ast opts. Inr ast),
     AST_COMPARE = Some ''1''
   \<rparr>"

text \<open>The constants of the module loaded on that host.\<close>

definition demo_module :: resolved where
  "demo_module = \<lparr>python2BinAndVersion = Some (''python2'', ''2.7.18''),
                   python3BinAndVersion = Some (''python3'', ''3.6.9'')\<rparr>"

text \<open>The same host with a release candidate installed as \<^verbatim>\<open>python3.6\<close>.\<close>

definition rc_spawnSync :: "string \<Rightarrow> string list \<Rightarrow> proc" where
  "rc_spawnSync bin args =
     (if bin = ''python3.6'' \<and> args = probe_args
      then \<lparr>status = Some 0, stdout = ''3.8.0rc1'' @ [LF]\<rparr>
      else demo_spawnSync bin args)"

definition rc_env :: env where
  "rc_env = demo_env\<lparr>spawnSync := rc_spawnSync\<rparr>"

definition empty_state :: state where
  "empty_state = \<lparr>tests = [], heap = [], fs_log = []\<rparr>"

text \<open>The state after \<^verbatim>\<open>run_spec("t", ["python", "alt"], "*")\<close> on that host.\<close>

definition demo_final :: state where
  "demo_final =
     snd (run_spec demo_env demo_module ''t'' (Some [''python'', ''alt'']) ''*'' None empty_state)"

section \<open>Properties\<close>

subsection \<open>Interpreter resolution\<close>

lemma getPythonBinAndVersion_Some:
  "getPythonBinAndVersion E bins spec = Inr (Some (bin, version)) \<Longrightarrow>
     version = reported E bin \<and> invalid_version E version = None \<and> satisfies E version spec \<and>
     bin \<in> set bins"
  by (induction bins)
     (auto simp: Let_def reported_def semver_satisfies_def split: if_splits sum.splits option.splits)








text \<open>The module loads on the first host, with the constants below, and does not load
  on the host with the release candidate.\<close>

lemma demo_load: "load_module demo_env = Inr demo_module"
  by code_simp

lemma rc_load: "load_module rc_env = Inl (Thrown ''TypeError: Invalid Version: 3.8.0rc1'')"
  by code_simp

subsection \<open>The interpreter set\<close>

text \<open>The versions held by the constants of a loaded module have passed the range test
  of line 23, so the range test of line 40 does not throw on them.\<close>

lemma select_binaries_valid:
  "(\<forall>bin version. Some (bin, version) \<in> set tracks \<longrightarrow> invalid_version E version = None) \<Longrightarrow>
   select_binaries E versionSpec tracks acc =
     Inr (acc @ map fst (filter (\<lambda>(bin, version). satisfies E version versionSpec)
            (concat (map (\<lambda>track. case track of None \<Rightarrow> [] | Some binding \<Rightarrow> [binding]) tracks))))"
proof (induction tracks arbitrary: acc)
  case Nil
  then show ?case by simp
next
  case (Cons t ts)
  then show ?case
    by (cases t) (auto simp: semver_satisfies_def)
qed

lemma load_module_Inr:
  assumes load: "load_module E = Inr M"
  shows "getPythonBinAndVersion E [''python2.7'', ''python2'', ''python''] ''2.*'' =
           Inr (python2BinAndVersion M) \<and>
         getPythonBinAndVersion E [''python3.6'', ''python3'', ''python''] ''3.*'' =
           Inr (python3BinAndVersion M)"
proof (cases "getPythonBinAndVersion E [''python2.7'', ''python2'', ''python''] ''2.*''")
  case (Inl e)
  with load show ?thesis by (simp add: load_module_def)
next
  case r2: (Inr binding2)
  show ?thesis
  proof (cases "getPythonBinAndVersion E [''python3.6'', ''python3'', ''python''] ''3.*''")
    case (Inl e)
    with load r2 show ?thesis by (simp add: load_module_def)
  next
    case r3: (Inr binding3)
    from load have "M = \<lparr>python2BinAndVersion = binding2, python3BinAndVersion = binding3\<rparr>"
      by (simp only: load_module_def r2 r3 sum.case sum.inject)
    with r2 r3 show ?thesis by (simp only: resolved.simps simp_thms)
  qed
qed

lemma load_module_tracks:
  assumes load: "load_module E = Inr M"
  shows "(python2BinAndVersion M = Some (bin, version) \<longrightarrow>
            version = reported E bin \<and> invalid_version E version = None \<and>
            satisfies E version ''2.*'') \<and>
         (python3BinAndVersion M = Some (bin, version) \<longrightarrow>
            version = reported E bin \<and> invalid_version E version = None \<and>
            satisfies E version ''3.*'')"
proof (intro conjI impI)
  assume p2: "python2BinAndVersion M = Some (bin, version)"
  from load_module_Inr [OF load, THEN conjunct1] p2
  have "getPythonBinAndVersion E [''python2.7'', ''python2'', ''python''] ''2.*'' =
      Inr (Some (bin, version))"
    by (simp only:)
  from getPythonBinAndVersion_Some [OF this]
  show "version = reported E bin" "invalid_version E version = None"
    "satisfies E version ''2.*''"
    by blast+
next
  assume p3: "python3BinAndVersion M = Some (bin, version)"
  from load_module_Inr [OF load, THEN conjunct2] p3
  have "getPythonBinAndVersion E [''python3.6'', ''python3'', ''python''] ''3.*'' =
      Inr (Some (bin, version))"
    by (simp only:)
  from getPythonBinAndVersion_Some [OF this]
  show "version = reported E bin" "invalid_version E version = None"
    "satisfies E version ''3.*''"
    by blast+
qed

lemma load_module_valid:
  assumes load: "load_module E = Inr M"
  shows "\<forall>bin version. Some (bin, version) \<in> set [python2BinAndVersion M, python3BinAndVersion M]
           \<longrightarrow> invalid_version E version = None"
  using load_module_tracks [OF load] by (auto dest: sym)

lemma select_binaries_loaded:
  assumes load: "load_module E = Inr M"
  shows "select_binaries E versionSpec [python2BinAndVersion M, python3BinAndVersion M] [] =
     Inr (map fst (filter (\<lambda>(bin, version). satisfies E version versionSpec) (resolved_tracks M)))"
  using select_binaries_valid [OF load_module_valid [OF load], of versionSpec "[]"]
  by (simp add: resolved_tracks_def)

lemma getPythonBinaries_Inr:
  "getPythonBinaries E M versionSpec st = (Inr bins, st') \<Longrightarrow>
     st' = (if versionSpec = ''*''
            then test ''Both Python versions available'' (BothVersionsBody bins)
                   (test ''At least one valid Python version'' (AtLeastOneBody bins) st)
            else test ''At least one valid Python version'' (AtLeastOneBody bins) st)"
  by (auto simp: getPythonBinaries_def Let_def split: sum.splits)

text \<open>
  Claim C6. In a loaded module every call of \<^verbatim>\<open>getPythonBinaries\<close> returns. A call that
  returns has registered the test whose body expects the length of the returned set to
  be greater than zero, and after it the test whose body expects that length to equal
  two exactly when the version range is the string \<^verbatim>\<open>*\<close>. Nothing else is registered,
  and the store and the file system are not touched. (With constants that no load has
  produced the range test can throw; then nothing is registered.)
\<close>

theorem getPythonBinaries_registers:
  "(load_module E = Inr M \<longrightarrow> (\<exists>bins. fst (getPythonBinaries E M versionSpec st) = Inr bins))
   \<and> (getPythonBinaries E M versionSpec st = (Inr bins, st') \<longrightarrow>
        tests st' = tests st @ [(''At least one valid Python version'', AtLeastOneBody bins)] @
          (if versionSpec = ''*''
           then [(''Both Python versions available'', BothVersionsBody bins)]
           else [])
        \<and> fst (run_body E (AtLeastOneBody bins) h) =
             ([ToBeGreaterThan (Num (int (length bins))) (Num 0)], None)
        \<and> fst (run_body E (BothVersionsBody bins) h) =
             ([ToEqual (Num (int (length bins))) (Num 2)], None)
        \<and> heap st' = heap st \<and> fs_log st' = fs_log st)
   \<and> (getPythonBinaries E M versionSpec st = (Inl e, st') \<longrightarrow> st' = st)"
proof (intro conjI impI)
  assume "load_module E = Inr M"
  from select_binaries_loaded [OF this, of versionSpec]
  show "\<exists>bins. fst (getPythonBinaries E M versionSpec st) = Inr bins"
    by (simp only: getPythonBinaries_def) (simp add: Let_def)
next
  assume "getPythonBinaries E M versionSpec st = (Inl e, st')"
  then show "st' = st"
    by (auto simp: getPythonBinaries_def Let_def split: sum.splits)
next
  assume run: "getPythonBinaries E M versionSpec st = (Inr bins, st')"
  note st' = getPythonBinaries_Inr [OF run]
  show "tests st' = tests st @ [(''At least one valid Python version'', AtLeastOneBody bins)] @
          (if versionSpec = ''*''
           then [(''Both Python versions available'', BothVersionsBody bins)]
           else [])"
    by (simp add: st' test_def)
  show "heap st' = heap st" by (simp add: st' test_def)
  show "fs_log st' = fs_log st" by (simp add: st' test_def)
qed simp_all

lemma demo_satisfies_any: "satisfies demo_env version ''*''"
  by (simp add: demo_env_def demo_satisfies_def)

lemma demo_binaries:
  "fst (getPythonBinaries demo_env demo_module ''*'' st) = Inr [''python2'', ''python3'']"
  by (simp only: getPythonBinaries_def select_binaries_loaded [OF demo_load])
     (simp add: resolved_tracks_def demo_satisfies_any Let_def demo_module_def)

theorem getPythonBinaries_registers_witness:
  "fst (getPythonBinaries demo_env demo_module ''*'' empty_state) = Inr [''python2'', ''python3'']
   \<and> tests (snd (getPythonBinaries demo_env demo_module ''*'' empty_state)) =
     [(''At least one valid Python version'', AtLeastOneBody [''python2'', ''python3'']),
      (''Both Python versions available'', BothVersionsBody [''python2'', ''python3''])]
   \<and> fst (run_body demo_env (AtLeastOneBody [''python2'', ''python3'']) []) =
        ([ToBeGreaterThan (Num 2) (Num 0)], None)
   \<and> fst (run_body demo_env (BothVersionsBody [''python2'', ''python3'']) []) =
        ([ToEqual (Num 2) (Num 2)], None)"
proof -
  note inst = getPythonBinaries_registers
      [of demo_env demo_module "''*''" empty_state "[''python2'', ''python3'']" _ "[]"]
  from inst [THEN conjunct1, THEN mp, OF demo_load] obtain bins
    where "fst (getPythonBinaries demo_env demo_module ''*'' empty_state) = Inr bins" ..
  with demo_binaries [of empty_state]
  have run: "getPythonBinaries demo_env demo_module ''*'' empty_state =
      (Inr [''python2'', ''python3''], snd (getPythonBinaries demo_env demo_module ''*'' empty_state))"
    by (simp add: prod_eq_iff)
  from inst [THEN conjunct2, THEN conjunct1, THEN mp, OF run] demo_binaries [of empty_state]
  show ?thesis by (simp add: empty_state_def)
qed

lemma tracks_bins_differ:
  assumes load: "load_module E = Inr M"
    and d: "tracks_disjoint E"
    and p2: "python2BinAndVersion M = Some (bin2, version2)"
    and p3: "python3BinAndVersion M = Some (bin3, version3)"
  shows "bin2 \<noteq> bin3"
proof
  assume same: "bin2 = bin3"
  from load_module_tracks [OF load, of bin2 version2] p2
  have f2: "version2 = reported E bin2" "satisfies E version2 ''2.*''" by blast+
  from load_module_tracks [OF load, of bin3 version3] p3
  have f3: "version3 = reported E bin3" "satisfies E version3 ''3.*''" by blast+
  from f2 f3 same have "version3 = version2" by simp
  with f2 f3 have "satisfies E version2 ''2.*'' \<and> satisfies E version2 ''3.*''"
    by simp
  with d show False unfolding tracks_disjoint_def by blast
qed

lemma resolved_tracks_distinct:
  assumes load: "load_module E = Inr M"
    and d: "tracks_disjoint E"
  shows "distinct (map fst (resolved_tracks M))"
proof (cases "python2BinAndVersion M")
  case None
  then show ?thesis by (cases "python3BinAndVersion M") (auto simp: resolved_tracks_def)
next
  case p2: (Some b2)
  show ?thesis
  proof (cases "python3BinAndVersion M")
    case None
    with p2 show ?thesis by (simp add: resolved_tracks_def)
  next
    case p3: (Some b3)
    obtain bin2 v2 bin3 v3 where "b2 = (bin2, v2)" "b3 = (bin3, v3)"
      by (cases b2, cases b3)
    with p2 p3 tracks_bins_differ [OF load d] show ?thesis
      by (simp add: resolved_tracks_def)
  qed
qed

text \<open>
  Claim C5. In a loaded module, when the two tracks exclude each other,
  \<^verbatim>\<open>getPythonBinaries\<close> returns, for every version range, the executables of the
  resolved track bindings whose versions satisfy the range, first track first, and the
  list has no duplicate: it is the list with duplicates removed. The function has no
  step that removes duplicates; the two tracks cannot resolve to the same executable.
\<close>

theorem getPythonBinaries_set:
  assumes load: "load_module E = Inr M"
    and d: "tracks_disjoint E"
  shows "fst (getPythonBinaries E M versionRange st) = Inr (buildSet E M versionRange) \<and>
         fst (getPythonBinaries E M versionRange st) =
           Inr (map fst (filter (\<lambda>(bin, version). satisfies E version versionRange)
                  (resolved_tracks M)))"
proof -
  have "distinct (map fst (filter (\<lambda>(bin, version). satisfies E version versionRange)
      (resolved_tracks M)))"
    using resolved_tracks_distinct [OF load d] by (rule distinct_map_filter)
  then show ?thesis
    by (simp only: buildSet_def getPythonBinaries_def select_binaries_loaded [OF load]
        distinct_remdups_id)
       (simp add: Let_def)
qed

lemma demo_disjoint: "tracks_disjoint demo_env"
  by (auto simp: tracks_disjoint_def demo_env_def demo_satisfies_def)

theorem getPythonBinaries_set_witness:
  "buildSet demo_env demo_module ''*'' = [''python2'', ''python3'']"
  using getPythonBinaries_set [OF demo_load demo_disjoint, of "''*''" empty_state]
    demo_binaries [of empty_state]
  by (simp only: sum.inject)

subsection \<open>The configuration error\<close>

text \<open>
  Claim C8. Called with an absent or an empty parser list, \<^verbatim>\<open>run_spec\<close> throws the
  error whose message is \<^verbatim>\<open>No parsers were specified for\<close> followed by the directory,
  and leaves the state as it was: no test is registered and the file system is not
  read.
\<close>

theorem run_spec_no_parsers:
  "parsers = None \<or> parsers = Some [] \<Longrightarrow>
   run_spec E M dirname parsers versionRange options st =
     (Inl (Error (''No parsers were specified for '' @ dirname)), st)"
  by (auto simp: run_spec_def Let_def)

theorem run_spec_no_parsers_witness:
  "run_spec demo_env demo_module ''t'' None ''*'' None empty_state =
     (Inl (Error ''No parsers were specified for t''), empty_state)
   \<and> run_spec demo_env demo_module ''t'' (Some []) ''*'' None empty_state =
     (Inl (Error ''No parsers were specified for t''), empty_state)"
  using run_spec_no_parsers [of None demo_env demo_module "''t''" "''*''" None empty_state]
    run_spec_no_parsers [of "Some []" demo_env demo_module "''t''" "''*''" None empty_state]
  by simp

subsection \<open>Line endings\<close>

lemma CR_neq_LF: "CR \<noteq> LF"
  by (simp add: CR_def LF_def)

lemma replace_crlf_head:
  "replace_crlf (d # rest) =
     (if d = CR \<and> (\<exists>r. rest = LF # r) then LF # replace_crlf (tl rest)
      else d # replace_crlf rest)"
  by (cases rest) auto

lemma has_crlf_Cons:
  "has_crlf (c # s) \<longleftrightarrow> (c = CR \<and> (\<exists>r. s = LF # r)) \<or> has_crlf s"
  by (cases s) auto

lemma has_crcrlf_Cons:
  "has_crcrlf (c # s) \<longleftrightarrow> (c = CR \<and> (\<exists>r. s = CR # LF # r)) \<or> has_crcrlf s"
proof (cases s)
  case Nil
  then show ?thesis by simp
next
  case (Cons d t)
  then show ?thesis by (cases t) auto
qed

lemma has_crlf_sublist: "has_crlf s \<longleftrightarrow> sublist [CR, LF] s"
  by (induction s rule: has_crlf.induct) (auto simp: sublist_Cons_right)

lemma has_crcrlf_sublist: "has_crcrlf s \<longleftrightarrow> sublist [CR, CR, LF] s"
  by (induction s rule: has_crcrlf.induct) (auto simp: sublist_Cons_right)

text \<open>
  Claim C9, as stated: whatever the content of the file, the text handed to the
  formatter contains no CR LF. It fails for the content CR CR LF: the pass replaces
  the CR LF it finds and the CR before it now stands before the new LF.
\<close>

theorem replace_crlf_counterexample: "has_crlf (replace_crlf [CR, CR, LF])"
  by (simp add: CR_def LF_def)

text \<open>
  Claim C9, amended. The text handed to the formatter is the content after one pass
  that replaces every CR LF by LF; it contains a CR LF exactly when the content
  contains a CR CR LF.
\<close>

theorem replace_crlf_has_crlf: "has_crlf (replace_crlf s) \<longleftrightarrow> has_crcrlf s"
proof (induction s rule: replace_crlf.induct)
  case (1 c d rest)
  show ?case
  proof (cases "c = CR \<and> d = LF")
    case True
    then have "has_crlf (replace_crlf (c # d # rest)) = has_crlf (replace_crlf rest)"
      using CR_neq_LF by (simp add: has_crlf_Cons)
    moreover have "has_crcrlf (c # d # rest) = has_crcrlf rest"
      using True CR_neq_LF by (simp add: has_crcrlf_Cons)
    moreover have "has_crlf (replace_crlf rest) = has_crcrlf rest"
      using 1(1) True by blast
    ultimately show ?thesis by blast
  next
    case False
    then have "has_crlf (replace_crlf (c # d # rest)) \<longleftrightarrow>
        (c = CR \<and> d = CR \<and> (\<exists>r. rest = LF # r)) \<or> has_crlf (replace_crlf (d # rest))"
      using CR_neq_LF by (auto simp: has_crlf_Cons replace_crlf_head)
    moreover have "has_crcrlf (c # d # rest) \<longleftrightarrow>
        (c = CR \<and> d = CR \<and> (\<exists>r. rest = LF # r)) \<or> has_crcrlf (d # rest)"
      by (subst has_crcrlf_Cons) auto
    moreover have "has_crlf (replace_crlf (d # rest)) = has_crcrlf (d # rest)"
      using 1(2) False by blast
    ultimately show ?thesis by blast
  qed
qed auto

theorem replace_crlf_has_crlf_witness:
  "\<not> has_crlf (replace_crlf (''a'' @ [CR, LF] @ ''b'' @ [CR, LF]))"
proof -
  have "\<not> has_crcrlf (''a'' @ [CR, LF] @ ''b'' @ [CR, LF])"
    by (simp add: CR_def LF_def)
  then show ?thesis
    by (simp only: replace_crlf_has_crlf not_False_eq_True)
qed

subsection \<open>The extra normalization of a syntax tree\<close>

text \<open>What holds of the function: the result has no field named \<^verbatim>\<open>text\<close> at any
  depth, and a value other than \<^verbatim>\<open>null\<close>, an array or an object comes back as it
  is.\<close>

lemma stripExtraNonComparableKeys_no_text: "\<not> has_text_key (stripExtraNonComparableKeys ast)"
  by (induction ast rule: stripExtraNonComparableKeys.induct) auto

lemma stripExtraNonComparableKeys_scalar:
  "ast \<noteq> Null \<Longrightarrow> (\<forall>es. ast \<noteq> Arr es) \<Longrightarrow> (\<forall>kvs. ast \<noteq> Obj kvs) \<Longrightarrow>
     stripExtraNonComparableKeys ast = ast"
  by (cases ast) auto

text \<open>
  Claim C3 says that every value that is neither an array nor an object comes back
  unchanged. The function sends \<^verbatim>\<open>null\<close> through its object branch
  (\<^verbatim>\<open>typeof null\<close> is \<^verbatim>\<open>"object"\<close>) and returns a new empty object, at the top and
  as the value of a field.
\<close>

theorem stripExtraNonComparableKeys_null:
  "stripExtraNonComparableKeys Null = Obj [] \<and>
   stripExtraNonComparableKeys (Obj [(''type'', Str ''Return''), (''value'', Null)]) =
     Obj [(''type'', Str ''Return''), (''value'', Obj [])]"
  by simp

subsection \<open>How the state grows\<close>

lemma extends_refl: "extends s s"
  by (simp add: extends_def)

lemma extends_trans: "extends s s' \<Longrightarrow> extends s' s'' \<Longrightarrow> extends s s''"
  unfolding extends_def by (meson prefix_order.trans)

lemma fold_test_tests:
  "tests (fold (\<lambda>x. test (nm x) (bd x)) xs st) = tests st @ map (\<lambda>x. (nm x, bd x)) xs"
  by (induction xs arbitrary: st) (simp_all add: test_def)

lemma fold_test_heap: "heap (fold (\<lambda>x. test (nm x) (bd x)) xs st) = heap st"
  by (induction xs arbitrary: st) (simp_all add: test_def)

lemma fold_test_log: "fs_log (fold (\<lambda>x. test (nm x) (bd x)) xs st) = fs_log st"
  by (induction xs arbitrary: st) (simp_all add: test_def)

lemma forEach_extends:
  assumes step: "\<And>x s r s'. f x s = (r, s') \<Longrightarrow> extends s s'"
  shows "forEach f xs st = (r, st') \<Longrightarrow> extends st st'"
proof (induction xs arbitrary: st)
  case Nil
  then show ?case by (simp add: extends_refl)
next
  case (Cons x xs)
  obtain r1 s1 where fx: "f x st = (r1, s1)" by (cases "f x st")
  have e1: "extends st s1" using step fx .
  show ?case
  proof (cases r1)
    case (Inl e)
    with Cons.prems fx e1 show ?thesis by simp
  next
    case (Inr u)
    with Cons.prems fx have "forEach f xs s1 = (r, st')" by simp
    then have "extends s1 st'" by (rule Cons.IH)
    with e1 show ?thesis by (rule extends_trans)
  qed
qed

lemma forEach_reaches:
  assumes step: "\<And>x s r s'. f x s = (r, s') \<Longrightarrow> extends s s'"
  shows "forEach f xs st = (Inr (), st') \<Longrightarrow> x \<in> set xs \<Longrightarrow>
    \<exists>s1 s2. extends st s1 \<and> f x s1 = (Inr (), s2) \<and> extends s2 st'"
proof (induction xs arbitrary: st)
  case Nil
  then show ?case by simp
next
  case (Cons y ys)
  obtain r1 s1 where fy: "f y st = (r1, s1)" by (cases "f y st")
  have e1: "extends st s1" using step fy .
  from Cons.prems(1) fy have r1: "r1 = Inr ()" and rest: "forEach f ys s1 = (Inr (), st')"
    by (cases r1; simp)+
  show ?case
  proof (cases "x = y")
    case True
    have "extends s1 st'" using forEach_extends [OF step rest] .
    with fy r1 True show ?thesis using extends_refl by blast
  next
    case False
    with Cons.prems(2) have "x \<in> set ys" by simp
    from Cons.IH [OF rest this] obtain s2 s3
      where "extends s1 s2" "f x s2 = (Inr (), s3)" "extends s3 st'" by blast
    with e1 show ?thesis using extends_trans by blast
  qed
qed


lemma getPythonBinaries_fst:
  "fst (getPythonBinaries E M versionSpec st) = fst (getPythonBinaries E M versionSpec st0)"
  by (simp add: getPythonBinaries_def Let_def split: sum.splits)

lemma getPythonBinaries_extends:
  "getPythonBinaries E M versionSpec st = (r, st') \<Longrightarrow> extends st st'"
  by (auto simp: getPythonBinaries_def Let_def extends_def test_def split: sum.splits)

lemma getPythonBinaries_log:
  "getPythonBinaries E M versionSpec st = (r, st') \<Longrightarrow> fs_log st' = fs_log st"
  by (auto simp: getPythonBinaries_def Let_def test_def split: sum.splits)

lemma per_pythonBin_heap:
  "per_pythonBin E filename path source parser0 others options pythonBin st = (r, st') \<Longrightarrow>
     heap st' = heap st @ [mergedOptions_of options parser0 pythonBin] \<and> fs_log st' = fs_log st"
  by (auto simp: per_pythonBin_def Let_def test_def fold_test_heap fold_test_log
      split: sum.splits if_splits)

lemma per_pythonBin_tests:
  "per_pythonBin E filename path source parser0 others options pythonBin st = (r, st') \<Longrightarrow>
     prefix (tests st) (tests st')"
  by (auto simp: per_pythonBin_def Let_def test_def fold_test_tests
      split: sum.splits if_splits)

lemma per_pythonBin_extends:
  "per_pythonBin E filename path source parser0 others options pythonBin st = (r, st') \<Longrightarrow>
     extends st st'"
  using per_pythonBin_heap per_pythonBin_tests unfolding extends_def by fastforce


lemma per_filename_extends:
  assumes run: "per_filename E M dirname parser0 others versionRange options filename st = (r, st')"
  shows "extends st st'"
proof -
  let ?path = "dirname @ ''/'' @ filename"
  let ?st2 = "st\<lparr>fs_log := fs_log st @ [Lstat ?path, ReadFile ?path]\<rparr>"
  have ext1: "\<And>s evs. extends s (s\<lparr>fs_log := fs_log s @ evs\<rparr>)"
    by (simp add: extends_def)
  have thrown: "extends st s3"
    if g: "getPythonBinaries E M versionRange ?st2 = (Inl e, s3)" for e s3
  proof -
    have "extends st ?st2" by (rule ext1)
    moreover have "extends ?st2 s3" using g by (rule getPythonBinaries_extends)
    ultimately show ?thesis by (rule extends_trans)
  qed
  have key: "extends st st'"
    if g: "getPythonBinaries E M versionRange ?st2 = (Inr bins, s3)"
      and f: "forEach (per_pythonBin E filename ?path src parser0 others options) bins s3 = (r, st')"
    for bins s3 src
  proof -
    have "extends st ?st2" by (rule ext1)
    moreover have "extends ?st2 s3" using g by (rule getPythonBinaries_extends)
    moreover have "extends s3 st'"
      using f by (rule forEach_extends [rotated]) (rule per_pythonBin_extends)
    ultimately show ?thesis using extends_trans by blast
  qed
  show ?thesis
    using run key [simplified] thrown [simplified]
    by (auto simp: per_filename_def Let_def extends_refl ext1
        split: if_splits sum.splits prod.splits)
qed


lemma extends_tests: "extends s s' \<Longrightarrow> t \<in> set (tests s) \<Longrightarrow> t \<in> set (tests s')"
  unfolding extends_def by (auto dest: set_mono_prefix)

lemma extends_heap:
  "extends s s' \<Longrightarrow> a < length (heap s) \<Longrightarrow> a < length (heap s') \<and> heap s' ! a = heap s ! a"
  unfolding extends_def by (auto simp: prefix_def nth_append)

subsection \<open>Enumeration of the fixtures\<close>

lemma take1_dot: "take 1 filename \<noteq> ''.'' \<longleftrightarrow> \<not> prefix ''.'' filename"
  by (cases filename) auto

lemma per_filename_fixture:
  assumes run: "per_filename E M dirname parser0 others versionRange options filename st = (Inr (), st')"
    and fx: "is_fixture E dirname filename"
  shows "\<exists>content bins s3.
     read E (dirname @ ''/'' @ filename) = Inr content \<and>
     getPythonBinaries E M versionRange
       (st\<lparr>fs_log := fs_log st @ [Lstat (dirname @ ''/'' @ filename),
                                   ReadFile (dirname @ ''/'' @ filename)]\<rparr>) = (Inr bins, s3) \<and>
     forEach (per_pythonBin E filename (dirname @ ''/'' @ filename) (replace_crlf content)
                parser0 others options) bins s3 = (Inr (), st')"
  using run fx
  by (auto simp: per_filename_def is_fixture_def Let_def take1_dot [simplified]
      split: if_splits sum.splits prod.splits)

lemma per_filename_log:
  assumes run: "per_filename E M dirname parser0 others versionRange options filename st = (Inr (), st')"
  shows "fs_log st' = fs_log st @ file_events E dirname filename"
proof (cases "is_fixture E dirname filename")
  case True
  from per_filename_fixture [OF run True] obtain content bins s3 where
    g: "getPythonBinaries E M versionRange
       (st\<lparr>fs_log := fs_log st @ [Lstat (dirname @ ''/'' @ filename),
                                   ReadFile (dirname @ ''/'' @ filename)]\<rparr>) = (Inr bins, s3)"
    and f: "forEach (per_pythonBin E filename (dirname @ ''/'' @ filename) (replace_crlf content)
                parser0 others options) bins s3 = (Inr (), st')"
    by blast
  have "fs_log st' = fs_log s3"
    using f
  proof (induction bins arbitrary: s3)
    case Nil
    then show ?case by simp
  next
    case (Cons b bs)
    then show ?case
      by (auto split: prod.splits sum.splits dest: per_pythonBin_heap)
  qed
  also have "\<dots> = fs_log st @ [Lstat (dirname @ ''/'' @ filename), ReadFile (dirname @ ''/'' @ filename)]"
    using getPythonBinaries_log [OF g] by simp
  finally show ?thesis using True by (simp add: file_events_def is_fixture_def)
next
  case False
  with run show ?thesis
    by (auto simp: per_filename_def is_fixture_def file_events_def Let_def take1_dot [simplified]
      split: if_splits sum.splits prod.splits)
qed

lemma forEach_per_filename_log:
  "forEach (per_filename E M dirname parser0 others versionRange options) filenames st = (Inr (), st')
   \<Longrightarrow> fs_log st' = fs_log st @ concat (map (file_events E dirname) filenames)"
proof (induction filenames arbitrary: st)
  case Nil
  then show ?case by simp
next
  case (Cons f fs)
  obtain r1 s1 where s: "per_filename E M dirname parser0 others versionRange options f st = (r1, s1)"
    by force
  with Cons.prems have r1: "r1 = Inr ()"
    and rest: "forEach (per_filename E M dirname parser0 others versionRange options) fs s1 = (Inr (), st')"
    by (cases r1; simp)+
  from per_filename_log s r1 have "fs_log s1 = fs_log st @ file_events E dirname f" by blast
  with Cons.IH [OF rest] show ?case by simp
qed

lemma files_read_append: "files_read (xs @ ys) = files_read xs @ files_read ys"
  by (induction xs rule: files_read.induct) simp_all

lemma dirs_listed_append: "dirs_listed (xs @ ys) = dirs_listed xs @ dirs_listed ys"
  by (induction xs rule: dirs_listed.induct) simp_all

lemma files_read_events:
  "files_read (concat (map (file_events E directory) entries)) =
     map (\<lambda>entry. directory @ ''/'' @ entry) (filter (is_fixture E directory) entries)"
  by (induction entries) (simp_all add: files_read_append file_events_def is_fixture_def)

lemma dirs_listed_events: "dirs_listed (concat (map (file_events E directory) entries)) = []"
  by (induction entries) (simp_all add: dirs_listed_append file_events_def)

text \<open>
  Claim C7. In a run of \<^verbatim>\<open>run_spec\<close> that returns, the files read are, in the order of
  the directory listing, exactly the entries that are regular files, whose extension is
  not \<^verbatim>\<open>.snap\<close>, whose name does not start with a dot and is not \<^verbatim>\<open>jsfmt.spec.js\<close>;
  the only directory listed is the one given, so no subdirectory is entered.
\<close>

theorem run_spec_reads_fixtures:
  assumes run: "run_spec E M dirname (Some (parser0 # others)) versionRange options st = (Inr (), st')"
    and dir: "readdirSync E dirname = Inr entries"
  shows "files_read (drop (length (fs_log st)) (fs_log st')) =
           map (\<lambda>entry. dirname @ ''/'' @ entry) (filter (is_fixture E dirname) entries)
         \<and> dirs_listed (drop (length (fs_log st)) (fs_log st')) = [dirname]"
proof -
  let ?st1 = "st\<lparr>fs_log := fs_log st @ [Readdir dirname]\<rparr>"
  from run dir have
    "forEach (per_filename E M dirname parser0 others versionRange (with_defaults options)) entries ?st1
       = (Inr (), st')"
    by (simp add: run_spec_def Let_def)
  from forEach_per_filename_log [OF this]
  have "fs_log st' = fs_log st @ Readdir dirname # concat (map (file_events E dirname) entries)"
    by simp
  then show ?thesis
    by (simp add: files_read_events dirs_listed_events)
qed

lemma demo_run:
  "run_spec demo_env demo_module ''t'' (Some [''python'', ''alt'']) ''*'' None empty_state = (Inr (), demo_final)"
proof -
  have "fst (run_spec demo_env demo_module ''t'' (Some [''python'', ''alt'']) ''*'' None empty_state) = Inr ()"
    by code_simp
  then show ?thesis by (simp add: demo_final_def prod_eq_iff)
qed

lemma demo_dir:
  "readdirSync demo_env ''t'' = Inr [''a.py'', ''.hidden'', ''r.snap'', ''sub'', ''jsfmt.spec.js'']"
  by (simp add: demo_env_def demo_readdirSync_def)

lemma demo_fixture: "is_fixture demo_env ''t'' ''a.py''"
  by (simp add: is_fixture_def demo_env_def demo_extname_def)

lemma demo_entry: "''a.py'' \<in> set [''a.py'', ''.hidden'', ''r.snap'', ''sub'', ''jsfmt.spec.js'']"
  by simp

lemma demo_u_run:
  "run_spec demo_env demo_module ''u'' (Some [''python'']) ''3.*'' None empty_state =
     (Inr (), snd (run_spec demo_env demo_module ''u'' (Some [''python'']) ''3.*'' None empty_state))"
proof -
  have "fst (run_spec demo_env demo_module ''u'' (Some [''python'']) ''3.*'' None empty_state) = Inr ()"
    by code_simp
  then show ?thesis by (simp add: prod_eq_iff)
qed

lemma demo_u_dir:
  "readdirSync demo_env ''u'' = Inr [''a.txt'', ''.hidden'', ''results.snap'', ''b.txt'']"
  by (simp add: demo_env_def demo_readdirSync_def)

lemma demo_u_fixtures:
  "filter (is_fixture demo_env ''u'') [''a.txt'', ''.hidden'', ''results.snap'', ''b.txt'']
     = [''a.txt'', ''b.txt'']"
  by code_simp

theorem run_spec_reads_fixtures_witness:
  "files_read (fs_log (snd (run_spec demo_env demo_module ''u'' (Some [''python'']) ''3.*'' None empty_state)))
     = [''u/a.txt'', ''u/b.txt''] \<and>
   dirs_listed (fs_log (snd (run_spec demo_env demo_module ''u'' (Some [''python'']) ''3.*'' None empty_state)))
     = [''u'']"
  using run_spec_reads_fixtures [OF demo_u_run demo_u_dir, unfolded demo_u_fixtures]
  by (simp add: empty_state_def)

subsection \<open>The store and the verification tests\<close>

lemma assign_single: "assign opts [(key, v)] = AList.update key v opts"
  by (simp add: assign_def)

lemma parser_variant_refl: "parser_variant opts opts"
  by (simp add: parser_variant_def)

lemma parser_variant_trans:
  "parser_variant o1 o2 \<Longrightarrow> parser_variant o2 o3 \<Longrightarrow> parser_variant o1 o3"
  by (auto simp: parser_variant_def)


lemma store_variant_refl: "store_variant h h"
  by (simp add: store_variant_def parser_variant_refl)

lemma store_variant_trans:
  "store_variant h1 h2 \<Longrightarrow> store_variant h2 h3 \<Longrightarrow> store_variant h1 h3"
  unfolding store_variant_def using parser_variant_trans by auto

lemma run_body_store: "run_body E b h = (r, h') \<Longrightarrow> store_variant h h'"
proof (cases b)
  case (VerifyBody a parserName source path out)
  assume "run_body E b h = (r, h')"
  with VerifyBody have "h' = h \<or> (a < length h \<and> h' = h[a := AList.update ''parser'' (Str parserName) (h ! a)])"
    by (auto simp: Let_def assign_single split: if_splits sum.splits)
  moreover have "parser_variant (h ! a) (AList.update ''parser'' (Str parserName) (h ! a))"
    unfolding parser_variant_def by blast
  ultimately show ?thesis
    by (auto simp: store_variant_def parser_variant_refl nth_list_update)
qed (auto simp: store_variant_refl Let_def split: sum.splits if_splits)

lemma run_bodies_store: "run_bodies E bs h = (rs, h') \<Longrightarrow> store_variant h h'"
proof (induction bs arbitrary: h rs h')
  case Nil
  then show ?case by (simp add: store_variant_refl)
next
  case (Cons b bs)
  obtain r h1 where b: "run_body E b h = (r, h1)" by (cases "run_body E b h")
  obtain rs' h2 where bs: "run_bodies E bs h1 = (rs', h2)" by (cases "run_bodies E bs h1")
  from Cons.prems b bs have "h' = h2" by simp
  with run_body_store [OF b] Cons.IH [OF bs] show ?case
    using store_variant_trans by blast
qed


lemma per_pythonBin_registers:
  assumes run: "per_pythonBin E filename path source parser0 others options pythonBin st = (Inr (), st')"
  shows "\<exists>output. prettyprint E source path (mergedOptions_of options parser0 pythonBin) = Inr output \<and>
     (\<forall>P \<in> set others.
        (filename @ '' - '' @ P @ ''-verify'', VerifyBody (length (heap st)) P source path output)
          \<in> set (tests st'))"
  using run
  by (auto simp: per_pythonBin_def Let_def test_def fold_test_tests 
      split: sum.splits if_splits)

lemma per_pythonBin_parse_test:
  assumes run: "per_pythonBin E filename path source parser0 others options pythonBin st = (Inr (), st')"
    and flag: "env_set (AST_COMPARE E)"
  shows "\<exists>ast nopts astMassaged.
     parse E source (mergedOptions_of options parser0 pythonBin) = Inr ast \<and>
     normalizeOptions E (mergedOptions_of options parser0 pythonBin) = Inr nopts \<and>
     massageAST E ast nopts = Inr astMassaged \<and>
     (path @ '' parse'',
      ParseBody
        (case reparse E source path (mergedOptions_of options parser0 pythonBin) nopts of
           Inl stack \<Rightarrow> Str stack | Inr t \<Rightarrow> Null)
        (case reparse E source path (mergedOptions_of options parser0 pythonBin) nopts of
           Inl stack \<Rightarrow> Undefined | Inr t \<Rightarrow> t)
        ast astMassaged) \<in> set (tests st')"
  using run flag
  by (auto simp: per_pythonBin_def Let_def test_def fold_test_tests 
      split: sum.splits if_splits)

lemma run_spec_reaches:
  assumes run: "run_spec E M dirname (Some (parser0 # others)) versionRange options st = (Inr (), st')"
    and dir: "readdirSync E dirname = Inr entries"
    and entry: "filename \<in> set entries"
    and fixture: "is_fixture E dirname filename"
    and content: "readFileSync E (dirname @ ''/'' @ filename) = Inr content"
    and bins: "fst (getPythonBinaries E M versionRange st) = Inr bins"
    and bin: "pythonBin \<in> set bins"
  shows "\<exists>s1 s2.
     per_pythonBin E filename (dirname @ ''/'' @ filename) (replace_crlf content) parser0 others
       (with_defaults options) pythonBin s1 = (Inr (), s2) \<and> extends s2 st'"
proof -
  let ?st1 = "st\<lparr>fs_log := fs_log st @ [Readdir dirname]\<rparr>"
  let ?opts = "with_defaults options"
  let ?path = "dirname @ ''/'' @ filename"
  from run dir have outer:
    "forEach (per_filename E M dirname parser0 others versionRange ?opts) entries ?st1 = (Inr (), st')"
    by (simp add: run_spec_def Let_def)
  have "\<exists>s1 s2. extends ?st1 s1 \<and>
      per_filename E M dirname parser0 others versionRange ?opts filename s1 = (Inr (), s2) \<and>
      extends s2 st'"
    by (rule forEach_reaches [OF _ outer entry]) (rule per_filename_extends)
  then obtain s1 s2 where
    pf: "per_filename E M dirname parser0 others versionRange ?opts filename s1 = (Inr (), s2)"
    and e2: "extends s2 st'"
    by blast
  from per_filename_fixture [OF pf fixture] obtain content' bins' s3 where
    rd: "read E ?path = Inr content'"
    and g: "getPythonBinaries E M versionRange
       (s1\<lparr>fs_log := fs_log s1 @ [Lstat ?path, ReadFile ?path]\<rparr>) = (Inr bins', s3)"
    and loop: "forEach (per_pythonBin E filename ?path (replace_crlf content') parser0 others ?opts)
       bins' s3 = (Inr (), s2)"
    by blast
  from rd content have c: "content' = content" by (simp add: read_def)
  from g bins have "bins' = bins"
    using getPythonBinaries_fst [of E M versionRange _ st] by (metis fst_conv sum.inject(2))
  with bin have "pythonBin \<in> set bins'" by simp
  have "\<exists>s4 s5. extends s3 s4 \<and>
      per_pythonBin E filename ?path (replace_crlf content') parser0 others ?opts pythonBin s4
        = (Inr (), s5) \<and> extends s5 s2"
    by (rule forEach_reaches [OF _ loop \<open>pythonBin \<in> set bins'\<close>]) (rule per_pythonBin_extends)
  then obtain s4 s5 where
    "per_pythonBin E filename ?path (replace_crlf content') parser0 others ?opts pythonBin s4
       = (Inr (), s5)" and "extends s5 s2"
    by blast
  with e2 c show ?thesis using extends_trans by blast
qed

lemma assign_parser_map_of:
  "map_of (assign merged [(''parser'', v)]) key =
     (if key = ''parser'' then Some v else map_of merged key)"
  by (simp add: assign_single update_conv')

lemma demo_content: "readFileSync demo_env (''t'' @ ''/'' @ ''a.py'') = Inr (''x'' @ [CR, LF])"
  by (simp add: demo_env_def demo_readFileSync_def)

lemma demo_source: "replace_crlf (''x'' @ [CR, LF]) = ''x'' @ [LF]"
  by (simp add: CR_def LF_def)

lemma demo_bin: "''python2'' \<in> set [''python2'', ''python3'']"
  by simp


lemma demo_merged:
  "mergedOptions_of (with_defaults None) ''python'' ''python2'' =
     [(''plugins'', Arr [Str ''.'']), (''parser'', Str ''python''), (''pythonBin'', Str ''python2'')]"
  by (simp add: mergedOptions_of_def with_defaults_def assign_def)



text \<open>
  Claim C10. The verification test does not copy the merged options: its closure holds
  the address of the object the reference output was formatted under. Whatever tests
  have run before it, running the test for the alternate parser \<open>P\<close> writes the store
  at that address only; afterwards the field \<^verbatim>\<open>parser\<close> of the object is \<open>P\<close> and every
  other field is as before, and as in the merged options at their creation.
\<close>

theorem verify_mutates_shared_options:
  assumes run: "run_spec E M dirname (Some (parser0 # others)) versionRange options st = (Inr (), st')"
    and dir: "readdirSync E dirname = Inr entries"
    and entry: "filename \<in> set entries"
    and fixture: "is_fixture E dirname filename"
    and content: "readFileSync E (dirname @ ''/'' @ filename) = Inr content"
    and bins: "fst (getPythonBinaries E M versionRange st) = Inr bins"
    and bin: "pythonBin \<in> set bins"
    and alt: "P \<in> set others"
  shows "\<exists>a out.
      a < length (heap st') \<and>
      heap st' ! a = mergedOptions_of (with_defaults options) parser0 pythonBin \<and>
      (filename @ '' - '' @ P @ ''-verify'',
       VerifyBody a P (replace_crlf content) (dirname @ ''/'' @ filename) out) \<in> set (tests st') \<and>
      (\<forall>bs rs h. run_bodies E bs (heap st') = (rs, h) \<longrightarrow>
         snd (run_body E (VerifyBody a P (replace_crlf content) (dirname @ ''/'' @ filename) out) h)
           = h[a := assign (h ! a) [(''parser'', Str P)]] \<and>
         map_of (snd (run_body E (VerifyBody a P (replace_crlf content) (dirname @ ''/'' @ filename)
                   out) h) ! a) ''parser'' = Some (Str P) \<and>
         (\<forall>key. key \<noteq> ''parser'' \<longrightarrow>
            map_of (snd (run_body E (VerifyBody a P (replace_crlf content)
                      (dirname @ ''/'' @ filename) out) h) ! a) key = map_of (h ! a) key \<and>
            map_of (h ! a) key =
              map_of (mergedOptions_of (with_defaults options) parser0 pythonBin) key))"
proof -
  let ?M = "mergedOptions_of (with_defaults options) parser0 pythonBin"
  let ?path = "dirname @ ''/'' @ filename"
  let ?src = "replace_crlf content"
  from run_spec_reaches [OF run dir entry fixture content bins bin] obtain s1 s2 where
    pb: "per_pythonBin E filename ?path ?src parser0 others (with_defaults options) pythonBin s1
           = (Inr (), s2)"
    and ext: "extends s2 st'"
    by blast
  let ?a = "length (heap s1)"
  from per_pythonBin_registers [OF pb] alt obtain out where
    reg: "(filename @ '' - '' @ P @ ''-verify'', VerifyBody ?a P ?src ?path out) \<in> set (tests s2)"
    by blast
  from per_pythonBin_heap [OF pb] have h2: "heap s2 = heap s1 @ [?M]" by simp
  then have "?a < length (heap s2)" "heap s2 ! ?a = ?M" by simp_all
  with extends_heap [OF ext, of ?a] have a: "?a < length (heap st')" and ha: "heap st' ! ?a = ?M"
    by simp_all
  have body: "snd (run_body E (VerifyBody ?a P ?src ?path out) h)
           = h[?a := assign (h ! ?a) [(''parser'', Str P)]] \<and>
         map_of (snd (run_body E (VerifyBody ?a P ?src ?path out) h) ! ?a) ''parser'' = Some (Str P) \<and>
         (\<forall>key. key \<noteq> ''parser'' \<longrightarrow>
            map_of (snd (run_body E (VerifyBody ?a P ?src ?path out) h) ! ?a) key = map_of (h ! ?a) key \<and>
            map_of (h ! ?a) key = map_of ?M key)"
    if rb: "run_bodies E bs (heap st') = (rs, h)" for bs rs h
  proof -
    from run_bodies_store [OF rb] a ha have al: "?a < length h" and pv: "parser_variant ?M (h ! ?a)"
      by (auto simp: store_variant_def)
    from pv have same: "\<forall>key. key \<noteq> ''parser'' \<longrightarrow> map_of (h ! ?a) key = map_of ?M key"
      by (auto simp: parser_variant_def update_conv')
    from al have "snd (run_body E (VerifyBody ?a P ?src ?path out) h)
           = h[?a := assign (h ! ?a) [(''parser'', Str P)]]"
      by (simp add: Let_def split: sum.splits)
    with al same show ?thesis by (simp add: assign_parser_map_of)
  qed
  from a ha extends_tests [OF ext reg] body show ?thesis
    by (intro exI [of _ ?a] exI [of _ out]) blast
qed

theorem verify_mutates_shared_options_witness:
  "\<exists>a. heap demo_final ! a =
          [(''plugins'', Arr [Str ''.'']), (''parser'', Str ''python''), (''pythonBin'', Str ''python2'')]
      \<and> snd (run_body demo_env (VerifyBody a ''alt'' (''x'' @ [LF]) ''t/a.py'' (''x'' @ [LF]))
                (heap demo_final)) ! a =
          [(''plugins'', Arr [Str ''.'']), (''parser'', Str ''alt''), (''pythonBin'', Str ''python2'')]"
proof -
  have alt: "''alt'' \<in> set [''alt'']" by simp
  have nil: "run_bodies demo_env [] (heap demo_final) = ([], heap demo_final)" by simp
  note inst = verify_mutates_shared_options
         [OF demo_run demo_dir demo_entry demo_fixture demo_content demo_binaries demo_bin alt,
          unfolded demo_source demo_merged]
  from inst obtain a out where
    a: "a < length (heap demo_final)"
    and ha: "heap demo_final ! a =
          [(''plugins'', Arr [Str ''.'']), (''parser'', Str ''python''), (''pythonBin'', Str ''python2'')]"
    and body: "\<forall>bs rs h. run_bodies demo_env bs (heap demo_final) = (rs, h) \<longrightarrow>
         snd (run_body demo_env (VerifyBody a ''alt'' (''x'' @ [LF]) (''t'' @ ''/'' @ ''a.py'') out) h)
           = h[a := assign (h ! a) [(''parser'', Str ''alt'')]] \<and>
         map_of (snd (run_body demo_env (VerifyBody a ''alt'' (''x'' @ [LF]) (''t'' @ ''/'' @ ''a.py'')
                   out) h) ! a) ''parser'' = Some (Str ''alt'') \<and>
         (\<forall>key. key \<noteq> ''parser'' \<longrightarrow>
            map_of (snd (run_body demo_env (VerifyBody a ''alt'' (''x'' @ [LF])
                      (''t'' @ ''/'' @ ''a.py'') out) h) ! a) key = map_of (h ! a) key \<and>
            map_of (h ! a) key =
              map_of [(''plugins'', Arr [Str ''.'']), (''parser'', Str ''python''),
                      (''pythonBin'', Str ''python2'')] key)"
    by (elim exE conjE) (rule that; assumption)
  from body [rule_format, OF nil, THEN conjunct1]
  have "snd (run_body demo_env (VerifyBody a ''alt'' (''x'' @ [LF]) (''t'' @ ''/'' @ ''a.py'') out)
      (heap demo_final)) = (heap demo_final)[a := assign (heap demo_final ! a) [(''parser'', Str ''alt'')]]" .
  moreover have "snd (run_body demo_env (VerifyBody a ''alt'' (''x'' @ [LF]) ''t/a.py'' (''x'' @ [LF]))
      (heap demo_final)) = snd (run_body demo_env (VerifyBody a ''alt'' (''x'' @ [LF]) (''t'' @ ''/'' @ ''a.py'') out)
      (heap demo_final))"
    by (simp add: Let_def split: sum.splits)
  ultimately have "snd (run_body demo_env (VerifyBody a ''alt'' (''x'' @ [LF]) ''t/a.py'' (''x'' @ [LF]))
      (heap demo_final)) ! a = assign (heap demo_final ! a) [(''parser'', Str ''alt'')]"
    using a by (simp del: run_body.simps)
  with ha show ?thesis
    by (intro exI [of _ a]) (simp add: assign_def del: run_body.simps)
qed

subsection \<open>The round-trip test\<close>

lemma map_of_strip_props:
  "key \<noteq> ''text'' \<Longrightarrow>
   map_of (map (\<lambda>(key, v). (key, f v)) (filter (\<lambda>(key, v). key \<noteq> ''text'') kvs)) key =
     map_option f (map_of kvs key)"
  by (induction kvs) auto

text \<open>The diagnostic and the tree of the \<^verbatim>\<open>try\<close> block, read off the three calls it
  makes: the formatter, the parser on the formatted text, the cleaner on the parsed
  tree after the extra normalization. The first that throws leaves its stack as the
  diagnostic and the tree undefined.\<close>

lemma reparse_calls:
  "(case reparse E source path merged normalizedOptions of
      Inl stack \<Rightarrow> pperr = Str stack \<and> ppastMassaged = Undefined
    | Inr t \<Rightarrow> pperr = Null \<and> ppastMassaged = t) =
   (case prettier_format E source (assign [(''filepath'', Str path)] merged) of
      Inl stack \<Rightarrow> pperr = Str stack \<and> ppastMassaged = Undefined
    | Inr formatted \<Rightarrow>
        (case prettier_debug_parse E formatted merged of
           Inl stack \<Rightarrow> pperr = Str stack \<and> ppastMassaged = Undefined
         | Inr ppast \<Rightarrow>
             (case massageAST E (stripExtraNonComparableKeys ppast) normalizedOptions of
                Inl stack \<Rightarrow> pperr = Str stack \<and> ppastMassaged = Undefined
              | Inr t \<Rightarrow> pperr = Null \<and> ppastMassaged = t)))"
  by (simp add: reparse_def prettyprint_def parse_def split: sum.splits)

lemma parse_test_registered:
  assumes run: "run_spec E M dirname (Some (parser0 # others)) versionRange options st = (Inr (), st')"
    and flag: "env_set (AST_COMPARE E)"
    and dir: "readdirSync E dirname = Inr entries"
    and entry: "filename \<in> set entries"
    and fixture: "is_fixture E dirname filename"
    and content: "readFileSync E (dirname @ ''/'' @ filename) = Inr content"
    and bins: "fst (getPythonBinaries E M versionRange st) = Inr bins"
    and bin: "pythonBin \<in> set bins"
    and tree: "prettier_debug_parse E (replace_crlf content)
                 (mergedOptions_of (with_defaults options) parser0 pythonBin) = Inr tree"
  shows "\<exists>normalizedOptions astMassaged pperr ppastMassaged.
      normalizeOptions E (mergedOptions_of (with_defaults options) parser0 pythonBin)
        = Inr normalizedOptions \<and>
      massageAST E (stripExtraNonComparableKeys tree) normalizedOptions = Inr astMassaged \<and>
      (case prettier_format E (replace_crlf content)
              (assign [(''filepath'', Str (dirname @ ''/'' @ filename))]
                 (mergedOptions_of (with_defaults options) parser0 pythonBin)) of
         Inl stack \<Rightarrow> pperr = Str stack \<and> ppastMassaged = Undefined
       | Inr formatted \<Rightarrow>
           (case prettier_debug_parse E formatted
                   (mergedOptions_of (with_defaults options) parser0 pythonBin) of
              Inl stack \<Rightarrow> pperr = Str stack \<and> ppastMassaged = Undefined
            | Inr ppast \<Rightarrow>
                (case massageAST E (stripExtraNonComparableKeys ppast) normalizedOptions of
                   Inl stack \<Rightarrow> pperr = Str stack \<and> ppastMassaged = Undefined
                 | Inr t \<Rightarrow> pperr = Null \<and> ppastMassaged = t))) \<and>
      (dirname @ ''/'' @ filename @ '' parse'',
       ParseBody pperr ppastMassaged (stripExtraNonComparableKeys tree) astMassaged)
        \<in> set (tests st')"
proof -
  let ?M = "mergedOptions_of (with_defaults options) parser0 pythonBin"
  let ?path = "dirname @ ''/'' @ filename"
  let ?src = "replace_crlf content"
  from run_spec_reaches [OF run dir entry fixture content bins bin] obtain s1 s2 where
    pb: "per_pythonBin E filename ?path ?src parser0 others (with_defaults options) pythonBin s1
           = (Inr (), s2)"
    and ext: "extends s2 st'"
    by blast
  from tree have ast: "parse E ?src ?M = Inr (stripExtraNonComparableKeys tree)"
    by (simp add: parse_def)
  from per_pythonBin_parse_test [OF pb flag] ast obtain nopts astMassaged where
    n: "normalizeOptions E ?M = Inr nopts"
    and m: "massageAST E (stripExtraNonComparableKeys tree) nopts = Inr astMassaged"
    and reg: "(?path @ '' parse'',
      ParseBody
        (case reparse E ?src ?path ?M nopts of Inl stack \<Rightarrow> Str stack | Inr t \<Rightarrow> Null)
        (case reparse E ?src ?path ?M nopts of Inl stack \<Rightarrow> Undefined | Inr t \<Rightarrow> t)
        (stripExtraNonComparableKeys tree) astMassaged) \<in> set (tests s2)"
    by auto
  let ?pperr = "case reparse E ?src ?path ?M nopts of Inl stack \<Rightarrow> Str stack | Inr t \<Rightarrow> Null"
  let ?pp = "case reparse E ?src ?path ?M nopts of Inl stack \<Rightarrow> Undefined | Inr t \<Rightarrow> t"
  have "case reparse E ?src ?path ?M nopts of
         Inl stack \<Rightarrow> ?pperr = Str stack \<and> ?pp = Undefined
       | Inr t \<Rightarrow> ?pperr = Null \<and> ?pp = t"
    by (simp split: sum.splits)
  then have c: "case prettier_format E ?src (assign [(''filepath'', Str ?path)] ?M) of
         Inl stack \<Rightarrow> ?pperr = Str stack \<and> ?pp = Undefined
       | Inr formatted \<Rightarrow>
           (case prettier_debug_parse E formatted ?M of
              Inl stack \<Rightarrow> ?pperr = Str stack \<and> ?pp = Undefined
            | Inr ppast \<Rightarrow>
                (case massageAST E (stripExtraNonComparableKeys ppast) nopts of
                   Inl stack \<Rightarrow> ?pperr = Str stack \<and> ?pp = Undefined
                 | Inr t \<Rightarrow> ?pperr = Null \<and> ?pp = t))"
    by (simp only: reparse_calls)
  from n m c extends_tests [OF ext reg] show ?thesis
    by (intro exI [of _ nopts] exI [of _ astMassaged] exI [of _ ?pperr] exI [of _ ?pp])
       (simp del: stripExtraNonComparableKeys.simps)
qed

lemma run_body_ParseBody:
  assumes errs: "map_of props ''errors'' = None \<or> (\<exists>es. map_of props ''errors'' = Some (Arr es))"
  shows "run_body E (ParseBody pperr ppastMassaged (stripExtraNonComparableKeys (Obj props)) astMassaged) h =
     ((ToBe pperr Null # ToBeDefined ppastMassaged #
        (if map_of props ''errors'' = None \<or> map_of props ''errors'' = Some (Arr [])
         then [ToEqual astMassaged ppastMassaged] else []), None), h)"
  using errs by (auto simp: map_of_strip_props Let_def)

lemma run_body_ParseBody_null:
  assumes errs: "map_of props ''errors'' = Some Null"
  shows "run_body E (ParseBody pperr ppastMassaged (stripExtraNonComparableKeys (Obj props)) astMassaged) h =
     (([ToBe pperr Null, ToBeDefined ppastMassaged], None), h)"
  using errs by (simp add: map_of_strip_props Let_def)

text \<open>What holds of the claim: for a parse whose \<^verbatim>\<open>errors\<close> field is absent or an
  array, the body makes the two unconditional calls and compares the two cleaned trees
  exactly when the field is absent or the array is empty.\<close>

lemma parse_test_assertions:
  assumes run: "run_spec E M dirname (Some (parser0 # others)) versionRange options st = (Inr (), st')"
    and flag: "env_set (AST_COMPARE E)"
    and dir: "readdirSync E dirname = Inr entries"
    and entry: "filename \<in> set entries"
    and fixture: "is_fixture E dirname filename"
    and content: "readFileSync E (dirname @ ''/'' @ filename) = Inr content"
    and bins: "fst (getPythonBinaries E M versionRange st) = Inr bins"
    and bin: "pythonBin \<in> set bins"
    and tree: "prettier_debug_parse E (replace_crlf content)
                 (mergedOptions_of (with_defaults options) parser0 pythonBin) = Inr (Obj props)"
    and errs: "map_of props ''errors'' = None \<or> (\<exists>es. map_of props ''errors'' = Some (Arr es))"
  shows "\<exists>normalizedOptions astMassaged pperr ppastMassaged.
      normalizeOptions E (mergedOptions_of (with_defaults options) parser0 pythonBin)
        = Inr normalizedOptions \<and>
      massageAST E (stripExtraNonComparableKeys (Obj props)) normalizedOptions = Inr astMassaged \<and>
      (case prettier_format E (replace_crlf content)
              (assign [(''filepath'', Str (dirname @ ''/'' @ filename))]
                 (mergedOptions_of (with_defaults options) parser0 pythonBin)) of
         Inl stack \<Rightarrow> pperr = Str stack \<and> ppastMassaged = Undefined
       | Inr formatted \<Rightarrow>
           (case prettier_debug_parse E formatted
                   (mergedOptions_of (with_defaults options) parser0 pythonBin) of
              Inl stack \<Rightarrow> pperr = Str stack \<and> ppastMassaged = Undefined
            | Inr ppast \<Rightarrow>
                (case massageAST E (stripExtraNonComparableKeys ppast) normalizedOptions of
                   Inl stack \<Rightarrow> pperr = Str stack \<and> ppastMassaged = Undefined
                 | Inr t \<Rightarrow> pperr = Null \<and> ppastMassaged = t))) \<and>
      (dirname @ ''/'' @ filename @ '' parse'',
       ParseBody pperr ppastMassaged (stripExtraNonComparableKeys (Obj props)) astMassaged)
        \<in> set (tests st') \<and>
      (\<forall>h. run_body E
             (ParseBody pperr ppastMassaged (stripExtraNonComparableKeys (Obj props)) astMassaged) h =
           ((ToBe pperr Null # ToBeDefined ppastMassaged #
              (if map_of props ''errors'' = None \<or> map_of props ''errors'' = Some (Arr [])
               then [ToEqual astMassaged ppastMassaged] else []), None), h))"
proof -
  from parse_test_registered [OF run flag dir entry fixture content bins bin tree]
  obtain nopts astMassaged pperr pp where
    reg: "normalizeOptions E (mergedOptions_of (with_defaults options) parser0 pythonBin) = Inr nopts \<and>
      massageAST E (stripExtraNonComparableKeys (Obj props)) nopts = Inr astMassaged \<and>
      (case prettier_format E (replace_crlf content)
              (assign [(''filepath'', Str (dirname @ ''/'' @ filename))]
                 (mergedOptions_of (with_defaults options) parser0 pythonBin)) of
         Inl stack \<Rightarrow> pperr = Str stack \<and> pp = Undefined
       | Inr formatted \<Rightarrow>
           (case prettier_debug_parse E formatted
                   (mergedOptions_of (with_defaults options) parser0 pythonBin) of
              Inl stack \<Rightarrow> pperr = Str stack \<and> pp = Undefined
            | Inr ppast \<Rightarrow>
                (case massageAST E (stripExtraNonComparableKeys ppast) nopts of
                   Inl stack \<Rightarrow> pperr = Str stack \<and> pp = Undefined
                 | Inr t \<Rightarrow> pperr = Null \<and> pp = t))) \<and>
      (dirname @ ''/'' @ filename @ '' parse'',
       ParseBody pperr pp (stripExtraNonComparableKeys (Obj props)) astMassaged) \<in> set (tests st')"
    by (elim exE) (rule that)
  note body = run_body_ParseBody [OF errs, of E pperr pp astMassaged]
  show ?thesis
    apply (rule exI [of _ nopts], rule exI [of _ astMassaged], rule exI [of _ pperr],
        rule exI [of _ pp])
    apply (intro conjI allI)
        apply (rule reg [THEN conjunct1])
       apply (rule reg [THEN conjunct2, THEN conjunct1])
      apply (rule reg [THEN conjunct2, THEN conjunct2, THEN conjunct1])
     apply (rule reg [THEN conjunct2, THEN conjunct2, THEN conjunct2])
    apply (rule body)
    done
qed

text \<open>
  Claim C1 says that the body compares the two cleaned trees whenever the error list of
  the original parse is absent or empty. With \<^verbatim>\<open>AST_COMPARE\<close> set, in a run of
  \<^verbatim>\<open>run_spec\<close> that returns, for every fixture and every selected interpreter the test
  named after the path is registered, and its body expects the diagnostic to be
  \<^verbatim>\<open>null\<close>, which it is exactly when none of the formatter, the parser on the
  formatted text and the cleaner threw, and expects the cleaned re-parsed tree to be
  defined. But when the parser returns a tree whose field \<^verbatim>\<open>errors\<close> is \<^verbatim>\<open>null\<close>,
  the extra normalization has made the field an empty object, which is neither falsy
  nor of length zero, and the body makes these two calls only: the trees are not
  compared although the parse reported no error list.
\<close>

theorem parse_test_null_errors:
  assumes run: "run_spec E M dirname (Some (parser0 # others)) versionRange options st = (Inr (), st')"
    and flag: "env_set (AST_COMPARE E)"
    and dir: "readdirSync E dirname = Inr entries"
    and entry: "filename \<in> set entries"
    and fixture: "is_fixture E dirname filename"
    and content: "readFileSync E (dirname @ ''/'' @ filename) = Inr content"
    and bins: "fst (getPythonBinaries E M versionRange st) = Inr bins"
    and bin: "pythonBin \<in> set bins"
    and tree: "prettier_debug_parse E (replace_crlf content)
                 (mergedOptions_of (with_defaults options) parser0 pythonBin) = Inr (Obj props)"
    and errs: "map_of props ''errors'' = Some Null"
  shows "\<exists>normalizedOptions astMassaged pperr ppastMassaged.
      normalizeOptions E (mergedOptions_of (with_defaults options) parser0 pythonBin)
        = Inr normalizedOptions \<and>
      massageAST E (stripExtraNonComparableKeys (Obj props)) normalizedOptions = Inr astMassaged \<and>
      (case prettier_format E (replace_crlf content)
              (assign [(''filepath'', Str (dirname @ ''/'' @ filename))]
                 (mergedOptions_of (with_defaults options) parser0 pythonBin)) of
         Inl stack \<Rightarrow> pperr = Str stack \<and> ppastMassaged = Undefined
       | Inr formatted \<Rightarrow>
           (case prettier_debug_parse E formatted
                   (mergedOptions_of (with_defaults options) parser0 pythonBin) of
              Inl stack \<Rightarrow> pperr = Str stack \<and> ppastMassaged = Undefined
            | Inr ppast \<Rightarrow>
                (case massageAST E (stripExtraNonComparableKeys ppast) normalizedOptions of
                   Inl stack \<Rightarrow> pperr = Str stack \<and> ppastMassaged = Undefined
                 | Inr t \<Rightarrow> pperr = Null \<and> ppastMassaged = t))) \<and>
      (dirname @ ''/'' @ filename @ '' parse'',
       ParseBody pperr ppastMassaged (stripExtraNonComparableKeys (Obj props)) astMassaged)
        \<in> set (tests st') \<and>
      (\<forall>h. run_body E
             (ParseBody pperr ppastMassaged (stripExtraNonComparableKeys (Obj props)) astMassaged) h =
           (([ToBe pperr Null, ToBeDefined ppastMassaged], None), h))"
proof -
  from parse_test_registered [OF run flag dir entry fixture content bins bin tree]
  obtain nopts astMassaged pperr pp where
    reg: "normalizeOptions E (mergedOptions_of (with_defaults options) parser0 pythonBin) = Inr nopts \<and>
      massageAST E (stripExtraNonComparableKeys (Obj props)) nopts = Inr astMassaged \<and>
      (case prettier_format E (replace_crlf content)
              (assign [(''filepath'', Str (dirname @ ''/'' @ filename))]
                 (mergedOptions_of (with_defaults options) parser0 pythonBin)) of
         Inl stack \<Rightarrow> pperr = Str stack \<and> pp = Undefined
       | Inr formatted \<Rightarrow>
           (case prettier_debug_parse E formatted
                   (mergedOptions_of (with_defaults options) parser0 pythonBin) of
              Inl stack \<Rightarrow> pperr = Str stack \<and> pp = Undefined
            | Inr ppast \<Rightarrow>
                (case massageAST E (stripExtraNonComparableKeys ppast) nopts of
                   Inl stack \<Rightarrow> pperr = Str stack \<and> pp = Undefined
                 | Inr t \<Rightarrow> pperr = Null \<and> pp = t))) \<and>
      (dirname @ ''/'' @ filename @ '' parse'',
       ParseBody pperr pp (stripExtraNonComparableKeys (Obj props)) astMassaged) \<in> set (tests st')"
    by (elim exE) (rule that)
  note body = run_body_ParseBody_null [OF errs, of E pperr pp astMassaged]
  show ?thesis
    apply (rule exI [of _ nopts], rule exI [of _ astMassaged], rule exI [of _ pperr],
        rule exI [of _ pp])
    apply (intro conjI allI)
        apply (rule reg [THEN conjunct1])
       apply (rule reg [THEN conjunct2, THEN conjunct1])
      apply (rule reg [THEN conjunct2, THEN conjunct2, THEN conjunct1])
     apply (rule reg [THEN conjunct2, THEN conjunct2, THEN conjunct2])
    apply (rule body)
    done
qed

lemma demo_flag: "env_set (AST_COMPARE demo_env)"
  by (simp add: env_set_def demo_env_def)

lemma demo_normalize: "normalizeOptions demo_env opts = Inr opts"
  by (simp add: demo_env_def)

lemma demo_massage: "massageAST demo_env ast opts = Inr ast"
  by (simp add: demo_env_def)

lemma demo_format: "prettier_format demo_env src opts = Inr src"
  by (simp add: demo_env_def)

lemma demo_n_run:
  "run_spec demo_env demo_module ''n'' (Some [''python'']) ''3.*'' None empty_state =
     (Inr (), snd (run_spec demo_env demo_module ''n'' (Some [''python'']) ''3.*'' None empty_state))"
proof -
  have "fst (run_spec demo_env demo_module ''n'' (Some [''python'']) ''3.*'' None empty_state) = Inr ()"
    by code_simp
  then show ?thesis by (simp add: prod_eq_iff)
qed

lemma demo_n_dir: "readdirSync demo_env ''n'' = Inr [''c.py'']"
  by (simp add: demo_env_def demo_readdirSync_def)

lemma demo_n_entry: "''c.py'' \<in> set [''c.py'']"
  by simp

lemma demo_n_fixture: "is_fixture demo_env ''n'' ''c.py''"
  by (simp add: is_fixture_def demo_env_def demo_extname_def)

lemma demo_n_content: "readFileSync demo_env (''n'' @ ''/'' @ ''c.py'') = Inr ''n''"
  by (simp add: demo_env_def demo_readFileSync_def)

lemma demo_n_source: "replace_crlf ''n'' = ''n''"
  by simp

lemma demo_n_binaries:
  "fst (getPythonBinaries demo_env demo_module ''3.*'' st) = Inr [''python3'']"
  by code_simp

lemma demo_n_bin: "''python3'' \<in> set [''python3'']"
  by simp

lemma demo_n_tree:
  "prettier_debug_parse demo_env ''n'' opts =
     Inr (Obj [(''type'', Str ''Module''), (''errors'', Null)])"
  by (simp add: demo_env_def demo_parse_def)

theorem parse_test_null_errors_witness:
  "(''n/c.py parse'',
    ParseBody Null (Obj [(''type'', Str ''Module''), (''errors'', Obj [])])
      (Obj [(''type'', Str ''Module''), (''errors'', Obj [])])
      (Obj [(''type'', Str ''Module''), (''errors'', Obj [])]))
     \<in> set (tests (snd (run_spec demo_env demo_module ''n'' (Some [''python'']) ''3.*'' None
                          empty_state))) \<and>
   fst (run_body demo_env
     (ParseBody Null (Obj [(''type'', Str ''Module''), (''errors'', Obj [])])
       (Obj [(''type'', Str ''Module''), (''errors'', Obj [])])
       (Obj [(''type'', Str ''Module''), (''errors'', Obj [])])) []) =
     ([ToBe Null Null, ToBeDefined (Obj [(''type'', Str ''Module''), (''errors'', Obj [])])], None)"
proof -
  let ?props = "[(''type'', Str ''Module''), (''errors'', Null)]"
  let ?tree = "Obj [(''type'', Str ''Module''), (''errors'', Obj [])]"
  let ?final = "snd (run_spec demo_env demo_module ''n'' (Some [''python'']) ''3.*'' None empty_state)"
  have errs: "map_of ?props ''errors'' = Some Null"
    by simp
  have strip: "stripExtraNonComparableKeys (Obj ?props) = ?tree"
    by simp
  have tree: "prettier_debug_parse demo_env (replace_crlf ''n'')
      (mergedOptions_of (with_defaults None) ''python'' ''python3'') = Inr (Obj ?props)"
    unfolding demo_n_source by (rule demo_n_tree)
  note inst = parse_test_null_errors
      [OF demo_n_run demo_flag demo_n_dir demo_n_entry demo_n_fixture demo_n_content
          demo_n_binaries demo_n_bin tree errs,
       unfolded demo_n_source demo_format demo_n_tree demo_normalize demo_massage strip sum.case]
  from inst obtain nopts :: obj and astMassaged pperr ppastMassaged where
    m: "Inr ?tree = (Inr astMassaged :: string + jsval)"
    and c: "pperr = Null" "ppastMassaged = ?tree"
    and reg: "(''n'' @ ''/'' @ ''c.py'' @ '' parse'', ParseBody pperr ppastMassaged ?tree astMassaged)
        \<in> set (tests ?final)"
    and body: "\<forall>h. run_body demo_env (ParseBody pperr ppastMassaged ?tree astMassaged) h =
           (([ToBe pperr Null, ToBeDefined ppastMassaged], None), h)"
    by (elim exE conjE) (rule that; assumption)
  from m c have vals: "astMassaged = ?tree" "pperr = Null" "ppastMassaged = ?tree"
    by simp_all
  from reg have "(''n/c.py parse'', ParseBody Null ?tree ?tree ?tree) \<in> set (tests ?final)"
    unfolding vals by simp
  moreover from body [rule_format, of "[]"]
  have "fst (run_body demo_env (ParseBody Null ?tree ?tree ?tree) []) =
      ([ToBe Null Null, ToBeDefined ?tree], None)"
    unfolding vals by (simp del: run_body.simps)
  ultimately show ?thesis by blast
qed

end
